theory Spec2Isabelle
  imports Main "HOL-Library.Word"
begin

section \<open>Strings\<close>

text \<open>
  A JavaScript string is a sequence of 16-bit code units. String literals of the source
  are ASCII; \<open>lit\<close> turns an ASCII literal into its code units.
\<close>

type_synonym jschar = "16 word"
type_synonym jsstring = "jschar list"

definition lit :: "string \<Rightarrow> jsstring" where
  "lit s = map of_char s"

text \<open>
  The code units matched by \<open>\s\<close> in a regular expression without the \<open>u\<close> flag, which
  are also the ones \<open>String.prototype.trim\<close> strips: WhiteSpace (TAB, VT, FF, SP, NBSP,
  ZWNBSP and the Unicode space separators) and LineTerminator (LF, CR, LS, PS).
\<close>

definition isWhiteSpace :: "jschar \<Rightarrow> bool" where
  "isWhiteSpace c =
     (c \<in> {0x9, 0xA, 0xB, 0xC, 0xD, 0x20, 0xA0, 0x1680, 0x2028, 0x2029, 0x202F, 0x205F,
            0x3000, 0xFEFF}
      \<or> (0x2000 \<le> c \<and> c \<le> 0x200A))"

text \<open>The character class \<open>[\r\n\t]\<close>.\<close>

definition isCrLfTab :: "jschar \<Rightarrow> bool" where
  "isCrLfTab c = (c = 0xD \<or> c = 0xA \<or> c = 0x9)"

text \<open>
  \<open>s.replace(/C+/g, ' ')\<close> for a character class \<open>C\<close>: every maximal run of code units
  of the class becomes one space.
\<close>

function replaceRuns :: "(jschar \<Rightarrow> bool) \<Rightarrow> jsstring \<Rightarrow> jsstring" where
  "replaceRuns p [] = []"
| "replaceRuns p (c # cs) =
     (if p c then 0x20 # replaceRuns p (dropWhile p cs) else c # replaceRuns p cs)"
  by pat_completeness auto
termination
  by (relation "measure (\<lambda>(p, s). length s)") (auto simp: less_Suc_eq_le length_dropWhile_le)

text \<open>\<open>String.prototype.trim\<close>.\<close>

definition trim :: "jsstring \<Rightarrow> jsstring" where
  "trim s = rev (dropWhile isWhiteSpace (rev (dropWhile isWhiteSpace s)))"

text \<open>
  \<^verbatim>\<open>function normalizeOneLine(s: string): string {
    return (s ?? '').replace(/[\r\n\t]+/g, ' ').replace(/\s+/g, ' ').trim();
  }\<close>
  Both call sites pass the result of \<open>String(...)\<close>, so the argument is a string and
  the \<open>?? ''\<close> has nothing to replace.
\<close>

definition normalizeOneLine :: "jsstring \<Rightarrow> jsstring" where
  "normalizeOneLine s = trim (replaceRuns isWhiteSpace (replaceRuns isCrLfTab s))"

text \<open>
  The shape of a normalised text: every white-space code unit is a space, and no two
  white-space code units are adjacent.
\<close>

fun singleSpaced :: "jsstring \<Rightarrow> bool" where
  "singleSpaced [] = True"
| "singleSpaced [c] = (isWhiteSpace c \<longrightarrow> c = 0x20)"
| "singleSpaced (c # d # cs) =
     ((isWhiteSpace c \<longrightarrow> c = 0x20 \<and> \<not> isWhiteSpace d) \<and> singleSpaced (d # cs))"

section \<open>Numbers\<close>

text \<open>
  A JavaScript number is an IEEE 754 double. \<open>Fin m e\<close> is the finite value
  \<open>m * 2 ^ e\<close>; a double in canonical form has \<open>\<bar>m\<bar> < 2 ^ 53\<close>, \<open>- 1074 \<le> e \<le> 971\<close> and
  \<open>2 ^ 52 \<le> \<bar>m\<bar>\<close> unless \<open>e = - 1074\<close> (zero and the subnormal values). The two zeros
  are one value here: every number of this program is only ever tested for finiteness
  or truthiness, rounded, or printed, and \<open>-0\<close> and \<open>+0\<close> agree on all of these.
\<close>

datatype jsnum = NaN | PosInf | NegInf | Fin int int

definition jsZero :: jsnum where
  "jsZero = Fin 0 (- 1074)"

definition jsOne :: jsnum where
  "jsOne = Fin (2 ^ 52) (- 52)"

text \<open>\<open>Number.isFinite\<close> on a number.\<close>

fun isFinite :: "jsnum \<Rightarrow> bool" where
  "isFinite (Fin m e) = True"
| "isFinite _ = False"

text \<open>Powers with an integer exponent, \<open>1\<close> where the exponent is negative.\<close>

definition pow2 :: "int \<Rightarrow> nat" where
  "pow2 e = 2 ^ nat e"

definition pow10 :: "int \<Rightarrow> nat" where
  "pow10 e = 10 ^ nat e"

function bitLength :: "nat \<Rightarrow> nat" where
  "bitLength n = (if n = 0 then 0 else Suc (bitLength (n div 2)))"
  by pat_completeness auto
termination
  by (relation "measure id") auto

text \<open>The decimal digits of a natural number, most significant first.\<close>

function decDigits :: "nat \<Rightarrow> jsstring" where
  "decDigits n =
     (if n < 10 then [0x30 + of_nat n]
      else decDigits (n div 10) @ [0x30 + of_nat (n mod 10)])"
  by pat_completeness auto
termination
  by (relation "measure id") auto

definition zeros :: "nat \<Rightarrow> jsstring" where
  "zeros n = replicate n 0x30"

text \<open>The integer nearest to \<open>p / q\<close>, the even one of two equally near.\<close>

definition roundHalfEven :: "nat \<Rightarrow> nat \<Rightarrow> nat" where
  "roundHalfEven p q =
     (let d = p div q; r = p mod q
      in if q < 2 * r \<or> (2 * r = q \<and> odd d) then d + 1 else d)"

text \<open>
  The Number value for the rational \<open>p / q\<close> with the sign \<open>neg\<close>: the double nearest
  to it (round to nearest, ties to even), an infinity from \<open>2 ^ 1024 - 2 ^ 970\<close> on.
  \<open>l\<close> is the binary exponent of \<open>p / q\<close>, found from the bit lengths of \<open>p\<close> and \<open>q\<close>.
\<close>

definition roundToDouble :: "bool \<Rightarrow> nat \<Rightarrow> nat \<Rightarrow> jsnum" where
  "roundToDouble neg p q =
     (if p = 0 then Fin 0 (- 1074)
      else
        let d = int (bitLength p) - int (bitLength q);
            l = (if q * pow2 d \<le> p * pow2 (- d) then d else d - 1);
            e = max (l - 52) (- 1074);
            m = roundHalfEven (p * pow2 (- e)) (q * pow2 e);
            m' = (if m = 2 ^ 53 then 2 ^ 52 else m);
            e' = (if m = 2 ^ 53 then e + 1 else e)
        in if 971 < e' then (if neg then NegInf else PosInf)
           else Fin (if neg then - int m' else int m') e')"

subsection \<open>Number to string\<close>

text \<open>
  \<open>Number::toString\<close> prints the shortest decimal \<open>s * 10 ^ (n - k)\<close>, \<open>s\<close> of \<open>k\<close>
  digits, whose Number value is the number printed; of several such \<open>s\<close> the one nearest
  to the number, the even one of two equally near.

  \<open>decExponent p q\<close> is the \<open>n\<close> with \<open>10 ^ (n - 1) \<le> p / q < 10 ^ n\<close>.
\<close>

function leadShift :: "nat \<Rightarrow> nat \<Rightarrow> nat" where
  "leadShift p q = (if p = 0 \<or> q \<le> p then 0 else Suc (leadShift (10 * p) q))"
  by pat_completeness auto
termination
  by (relation "measure (\<lambda>(p, q). q - p)") auto

definition decExponent :: "nat \<Rightarrow> nat \<Rightarrow> int" where
  "decExponent p q =
     (if q \<le> p then int (length (decDigits (p div q))) else 1 - int (leadShift p q))"

text \<open>The decimal \<open>s * 10 ^ t\<close> has the Number value \<open>x\<close>.\<close>

definition readsBack :: "jsnum \<Rightarrow> nat \<Rightarrow> int \<Rightarrow> bool" where
  "readsBack x s t = (roundToDouble False (s * pow10 t) (pow10 (- t)) = x)"

text \<open>
  The candidates with \<open>k\<close> digits for \<open>m * 2 ^ e\<close> are the two multiples \<open>lo\<close> and \<open>hi\<close> of
  \<open>10 ^ (n - k)\<close> around it. \<open>force\<close> takes the nearer one whether it reads back or not.
\<close>

definition shortestAt :: "nat \<Rightarrow> int \<Rightarrow> nat \<Rightarrow> bool \<Rightarrow> (nat \<times> int) option" where
  "shortestAt m e k force =
     (let p = m * pow2 e; q = pow2 (- e);
          n = decExponent p q;
          t = n - int k;
          P = p * pow10 (- t); Q = q * pow10 t;
          lo = P div Q; r = P mod Q; hi = lo + 1;
          x = roundToDouble False p q;
          okLo = readsBack x lo t;
          okHi = readsBack x hi t;
          preferHi = (Q < 2 * r \<or> (2 * r = Q \<and> odd lo));
          pick = (if okLo \<and> okHi then Some preferHi
                  else if okLo then Some False
                  else if okHi then Some True
                  else if force then Some preferHi else None)
      in case pick of
           None \<Rightarrow> None
         | Some False \<Rightarrow> Some (lo, n)
         | Some True \<Rightarrow> (if hi = 10 ^ k then Some (10 ^ (k - 1), n + 1) else Some (hi, n)))"

text \<open>
  The search for the least \<open>k\<close>, from \<open>k\<close> on; seventeen digits identify every double,
  so the search started at \<open>k = 1\<close> with fuel 16 ends at the latest with \<open>k = 17\<close>.
\<close>

fun shortestFrom :: "nat \<Rightarrow> int \<Rightarrow> nat \<Rightarrow> nat \<Rightarrow> nat \<times> int" where
  "shortestFrom m e k 0 =
     (case shortestAt m e k True of Some r \<Rightarrow> r | None \<Rightarrow> (0, 0))"
| "shortestFrom m e k (Suc fuel) =
     (case shortestAt m e k False of
        Some r \<Rightarrow> r
      | None \<Rightarrow> shortestFrom m e (Suc k) fuel)"

function stripZeros :: "nat \<Rightarrow> nat" where
  "stripZeros s = (if s = 0 \<or> s mod 10 \<noteq> 0 then s else stripZeros (s div 10))"
  by pat_completeness auto
termination
  by (relation "measure id") auto

text \<open>
  The notation chosen by \<open>Number::toString\<close> for the digits of \<open>s\<close> and the decimal
  exponent \<open>n\<close>: plain digits for \<open>- 5 \<le> n \<le> 21\<close>, exponential otherwise.
\<close>

definition formatDecimal :: "nat \<Rightarrow> int \<Rightarrow> jsstring" where
  "formatDecimal s n =
     (let ds = decDigits s; k = int (length ds)
      in if k \<le> n \<and> n \<le> 21 then ds @ zeros (nat (n - k))
         else if 0 < n \<and> n \<le> 21 then take (nat n) ds @ lit ''.'' @ drop (nat n) ds
         else if - 6 < n \<and> n \<le> 0 then lit ''0.'' @ zeros (nat (- n)) @ ds
         else
           let ex = n - 1;
               sg = (if ex < 0 then lit ''-'' else lit ''+'');
               tl = lit ''e'' @ sg @ decDigits (nat \<bar>ex\<bar>)
           in if k = 1 then ds @ tl else take 1 ds @ lit ''.'' @ drop 1 ds @ tl)"

fun numberToString :: "jsnum \<Rightarrow> jsstring" where
  "numberToString NaN = lit ''NaN''"
| "numberToString PosInf = lit ''Infinity''"
| "numberToString NegInf = lit ''-Infinity''"
| "numberToString (Fin m e) =
     (if m = 0 then lit ''0''
      else
        let r = shortestFrom (nat \<bar>m\<bar>) e 1 16;
            body = formatDecimal (stripZeros (fst r)) (snd r)
        in if m < 0 then lit ''-'' @ body else body)"

subsection \<open>Number.prototype.toFixed\<close>

text \<open>
  \<open>x.toFixed(f)\<close>: below \<open>10 ^ 21\<close> the digits of the integer \<open>n\<close> for which \<open>n / 10 ^ f\<close>
  is nearest to the exact value of \<open>\<bar>x\<bar>\<close> (the larger \<open>n\<close> of two equally near), with
  the decimal point before the last \<open>f\<close> digits; from \<open>10 ^ 21\<close> on, \<open>Number::toString\<close>.
\<close>

definition toFixed :: "jsnum \<Rightarrow> nat \<Rightarrow> jsstring" where
  "toFixed x f =
     (case x of
        Fin m e \<Rightarrow>
          let a = nat \<bar>m\<bar>; p = a * pow2 e; q = pow2 (- e);
              sg = (if m < 0 then lit ''-'' else [])
          in if 10 ^ 21 * q \<le> p then sg @ numberToString (Fin (int a) e)
             else
               let n = (2 * p * 10 ^ f + q) div (2 * q);
                   ds = decDigits n;
                   ds' = (if length ds \<le> f then zeros (f + 1 - length ds) @ ds else ds);
                   k = length ds'
               in sg @ (if f = 0 then ds' else take (k - f) ds' @ lit ''.'' @ drop (k - f) ds')
      | _ \<Rightarrow> numberToString x)"


subsection \<open>String to number\<close>

text \<open>
  \<open>StringToNumber\<close>: the string without surrounding white space is empty (zero), a
  hexadecimal, octal or binary integer literal, or an optionally signed decimal literal
  (\<open>Infinity\<close>, or digits with an optional fraction and exponent); anything else is
  \<open>NaN\<close>. The value is rounded to the nearest double.
\<close>

definition isDigit :: "jschar \<Rightarrow> bool" where
  "isDigit c = (0x30 \<le> c \<and> c \<le> 0x39)"

definition isHexDigit :: "jschar \<Rightarrow> bool" where
  "isHexDigit c =
     (isDigit c \<or> (0x41 \<le> c \<and> c \<le> 0x46) \<or> (0x61 \<le> c \<and> c \<le> 0x66))"

definition isOctalDigit :: "jschar \<Rightarrow> bool" where
  "isOctalDigit c = (0x30 \<le> c \<and> c \<le> 0x37)"

definition isBinaryDigit :: "jschar \<Rightarrow> bool" where
  "isBinaryDigit c = (c = 0x30 \<or> c = 0x31)"

definition digitValue :: "jschar \<Rightarrow> nat" where
  "digitValue c =
     (if isDigit c then unat c - 0x30
      else if 0x61 \<le> c then unat c - 0x61 + 10
      else unat c - 0x41 + 10)"

definition digitsValue :: "nat \<Rightarrow> jsstring \<Rightarrow> nat" where
  "digitsValue base ds = foldl (\<lambda>a c. base * a + digitValue c) 0 ds"

text \<open>The exponent part: nothing, or \<open>e\<close> or \<open>E\<close>, an optional sign and digits.\<close>

definition parseExponent :: "jsstring \<Rightarrow> int option" where
  "parseExponent s =
     (case s of
        [] \<Rightarrow> Some 0
      | c # cs \<Rightarrow>
          if c = 0x65 \<or> c = 0x45 then
            (let neg = (cs \<noteq> [] \<and> hd cs = 0x2D);
                 ds = (if cs \<noteq> [] \<and> (hd cs = 0x2B \<or> hd cs = 0x2D) then tl cs else cs)
             in if ds \<noteq> [] \<and> list_all isDigit ds
                then Some (if neg then - int (digitsValue 10 ds) else int (digitsValue 10 ds))
                else None)
          else None)"

definition parseUnsignedDecimal :: "bool \<Rightarrow> jsstring \<Rightarrow> jsnum" where
  "parseUnsignedDecimal neg s =
     (if s = lit ''Infinity'' then (if neg then NegInf else PosInf)
      else
        let ip = takeWhile isDigit s; r1 = dropWhile isDigit s;
            dot = (r1 \<noteq> [] \<and> hd r1 = 0x2E);
            fp = (if dot then takeWhile isDigit (tl r1) else []);
            r2 = (if dot then dropWhile isDigit (tl r1) else r1)
        in if ip = [] \<and> fp = [] then NaN
           else case parseExponent r2 of
                  None \<Rightarrow> NaN
                | Some ex \<Rightarrow>
                    let t = ex - int (length fp); v = digitsValue 10 (ip @ fp)
                    in roundToDouble neg (v * pow10 t) (pow10 (- t)))"

definition parseRadix :: "nat \<Rightarrow> (jschar \<Rightarrow> bool) \<Rightarrow> jsstring \<Rightarrow> jsnum" where
  "parseRadix base ok ds =
     (if ds \<noteq> [] \<and> list_all ok ds then roundToDouble False (digitsValue base ds) 1
      else NaN)"

definition StringToNumber :: "jsstring \<Rightarrow> jsnum" where
  "StringToNumber str =
     (case trim str of
        [] \<Rightarrow> Fin 0 (- 1074)
      | c # cs \<Rightarrow>
          if c = 0x30 \<and> cs \<noteq> [] \<and> (hd cs = 0x78 \<or> hd cs = 0x58)
            then parseRadix 16 isHexDigit (tl cs)
          else if c = 0x30 \<and> cs \<noteq> [] \<and> (hd cs = 0x6F \<or> hd cs = 0x4F)
            then parseRadix 8 isOctalDigit (tl cs)
          else if c = 0x30 \<and> cs \<noteq> [] \<and> (hd cs = 0x62 \<or> hd cs = 0x42)
            then parseRadix 2 isBinaryDigit (tl cs)
          else if c = 0x2B then parseUnsignedDecimal False cs
          else if c = 0x2D then parseUnsignedDecimal True cs
          else parseUnsignedDecimal False (c # cs))"

section \<open>Values\<close>

text \<open>
  The values that reach the handler are decoded from JSON (the arguments of a request,
  the records of the memory service): \<open>undefined\<close>, \<open>null\<close>, booleans, numbers, strings,
  arrays, and plain objects given by the table of their own properties, where an earlier
  entry hides a later one of the same key.
\<close>

datatype jsval =
    JUndefined
  | JNull
  | JBool bool
  | JNum jsnum
  | JStr jsstring
  | JArr "jsval list"
  | JObj "(jsstring \<times> jsval) list"

text \<open>
  What a \<open>throw\<close> carries: an instance of \<open>Error\<close> (a \<open>TypeError\<close> of a built-in
  included) with its message, or any other value.
\<close>

datatype exn = JsError jsstring | Thrown jsval

text \<open>
  \<open>ToString\<close>, used by \<open>String(v)\<close> and by template literals. An array prints its
  elements separated by commas, \<open>undefined\<close> and \<open>null\<close> elements as nothing. A plain
  object prints as \<open>[object Object]\<close> through \<open>Object.prototype.toString\<close>; when it has
  an own property \<open>toString\<close> (never a function in decoded JSON) no method yields a
  primitive and the conversion throws a \<open>TypeError\<close>.
\<close>

fun ToString :: "jsval \<Rightarrow> exn + jsstring"
  and joinElements :: "jsval list \<Rightarrow> exn + jsstring" where
  "ToString JUndefined = Inr (lit ''undefined'')"
| "ToString JNull = Inr (lit ''null'')"
| "ToString (JBool b) = Inr (if b then lit ''true'' else lit ''false'')"
| "ToString (JNum n) = Inr (numberToString n)"
| "ToString (JStr s) = Inr s"
| "ToString (JArr xs) = joinElements xs"
| "ToString (JObj ps) =
     (if map_of ps (lit ''toString'') \<noteq> None
      then Inl (JsError (lit ''Cannot convert object to primitive value''))
      else Inr (lit ''[object Object]''))"
| "joinElements [] = Inr []"
| "joinElements (x # xs) =
     (case (case x of JUndefined \<Rightarrow> Inr [] | JNull \<Rightarrow> Inr [] | _ \<Rightarrow> ToString x) of
        Inl e \<Rightarrow> Inl e
      | Inr s \<Rightarrow>
          (case joinElements xs of
             Inl e \<Rightarrow> Inl e
           | Inr r \<Rightarrow> Inr (if xs = [] then s else s @ lit '','' @ r)))"

text \<open>
  \<open>ToNumber\<close>, used by \<open>Number(v)\<close>. An array or object is first converted to a
  primitive: \<open>valueOf\<close> returns the object itself, so the string conversion decides.
\<close>

fun ToNumber :: "jsval \<Rightarrow> exn + jsnum" where
  "ToNumber JUndefined = Inr NaN"
| "ToNumber JNull = Inr jsZero"
| "ToNumber (JBool b) = Inr (if b then jsOne else jsZero)"
| "ToNumber (JNum n) = Inr n"
| "ToNumber (JStr s) = Inr (StringToNumber s)"
| "ToNumber v = (case ToString v of Inl e \<Rightarrow> Inl e | Inr s \<Rightarrow> Inr (StringToNumber s))"

text \<open>\<open>ToBoolean\<close>: the test of \<open>if (v)\<close>, \<open>!v\<close> and \<open>v || w\<close>.\<close>

fun ToBoolean :: "jsval \<Rightarrow> bool" where
  "ToBoolean JUndefined = False"
| "ToBoolean JNull = False"
| "ToBoolean (JBool b) = b"
| "ToBoolean (JNum (Fin m e)) = (m \<noteq> 0)"
| "ToBoolean (JNum NaN) = False"
| "ToBoolean (JNum _) = True"
| "ToBoolean (JStr s) = (s \<noteq> [])"
| "ToBoolean (JArr xs) = True"
| "ToBoolean (JObj ps) = True"

text \<open>\<open>a || b\<close> and \<open>a ?? b\<close>.\<close>

definition orElse :: "jsval \<Rightarrow> jsval \<Rightarrow> jsval" where
  "orElse a b = (if ToBoolean a then a else b)"

definition nullish :: "jsval \<Rightarrow> jsval \<Rightarrow> jsval" where
  "nullish a b = (if a = JUndefined \<or> a = JNull then b else a)"

text \<open>
  \<open>r?.key\<close> for the keys \<open>memory\<close> and \<open>score\<close>, which no built-in prototype defines:
  \<open>undefined\<close> on \<open>undefined\<close> and \<open>null\<close>, the own property of an object, and
  \<open>undefined\<close> on every other value.
\<close>

fun optMember :: "jsval \<Rightarrow> jsstring \<Rightarrow> jsval" where
  "optMember (JObj ps) key = (case map_of ps key of None \<Rightarrow> JUndefined | Some v \<Rightarrow> v)"
| "optMember _ key = JUndefined"

section \<open>Helpers of the server\<close>

text \<open>
  \<^verbatim>\<open>function round(n: any, p = 3): number | any {
    const num = Number(n);
    return Number.isFinite(num) ? Number(num.toFixed(p)) : n;
  }\<close>
\<close>

definition round_js :: "jsval \<Rightarrow> nat \<Rightarrow> exn + jsval" where
  "round_js n p =
     (case ToNumber n of
        Inl e \<Rightarrow> Inl e
      | Inr num \<Rightarrow> Inr (if isFinite num then JNum (StringToNumber (toFixed num p)) else n))"

section \<open>The server\<close>

record config =
  apiKey :: jsstring
  userId :: jsstring

text \<open>\<open>const defaultUserId = config.userId || 'mem0-mcp-user'\<close>\<close>

definition defaultUserId :: "config \<Rightarrow> jsstring" where
  "defaultUserId cfg = (if userId cfg \<noteq> [] then userId cfg else lit ''mem0-mcp-user'')"

text \<open>
  The memory client is outside the repository. A call either resolves to a value or
  rejects with what was thrown; the client is a pair of functions from the arguments of
  a call to its outcome. The options object \<open>{ user_id: u }\<close> is passed as \<open>u\<close>.
\<close>

datatype 'a outcome = Resolved 'a | Rejected exn

record message =
  role :: jsstring
  content :: jsval

record memoryClient =
  add :: "message list \<Rightarrow> jsval \<Rightarrow> jsval outcome"
  search :: "jsval \<Rightarrow> jsval \<Rightarrow> jsval outcome"

text \<open>
  \<open>addMemory\<close>: \<open>true\<close> when the client's \<open>add\<close> resolves, \<open>false\<close> when it rejects (the
  error is written to the console).
\<close>

definition addMemory :: "config \<Rightarrow> memoryClient \<Rightarrow> jsval \<Rightarrow> jsval \<Rightarrow> bool" where
  "addMemory cfg client content' userId' =
     (let messages =
            [\<lparr>role = lit ''system'', content = JStr (lit ''Memory storage system'')\<rparr>,
             \<lparr>role = lit ''user'', content = content'\<rparr>]
      in case add client messages (orElse userId' (JStr (defaultUserId cfg))) of
           Resolved r \<Rightarrow> True
         | Rejected error \<Rightarrow> False)"

text \<open>
  \<open>searchMemories\<close>: what the client's \<open>search\<close> resolves to, the empty array when it
  rejects.
\<close>

definition searchMemories :: "config \<Rightarrow> memoryClient \<Rightarrow> jsval \<Rightarrow> jsval \<Rightarrow> jsval" where
  "searchMemories cfg client query userId' =
     (case search client query (orElse userId' (JStr (defaultUserId cfg))) of
        Resolved results \<Rightarrow> results
      | Rejected error \<Rightarrow> JArr [])"

subsection \<open>The call-tool handler\<close>

record contentBlock =
  type :: jsstring
  "text" :: jsstring

record ToolResult =
  content :: "contentBlock list"
  isError :: bool

text \<open>
  The parameters of a call-tool request as the protocol layer hands them over: \<open>name\<close> is
  a string, \<open>arguments\<close> is absent or an object.
\<close>

record request =
  name :: jsstring
  arguments :: "(jsstring \<times> jsval) list option"

text \<open>A result with the one text block \<open>{ type: 'text', text: t }\<close>.\<close>

definition textResult :: "jsstring \<Rightarrow> bool \<Rightarrow> ToolResult" where
  "textResult t err = \<lparr>content = [\<lparr>type = lit ''text'', text = t\<rparr>], isError = err\<rparr>"

text \<open>The properties read from \<open>args\<close> by destructuring.\<close>

definition getArg :: "(jsstring \<times> jsval) list \<Rightarrow> string \<Rightarrow> jsval" where
  "getArg args key = (case map_of args (lit key) of None \<Rightarrow> JUndefined | Some v \<Rightarrow> v)"

text \<open>
  The callback of \<open>map\<close> in the \<open>returnAll\<close> branch:
  \<^verbatim>\<open>(r: any) => {
    const mem = normalizeOneLine(String(r?.memory ?? ''));
    const score = round(r?.score ?? 0);
    return `${mem} (relevance: ${score})`;
  }\<close>
\<close>

definition formatRecord :: "jsval \<Rightarrow> exn + jsstring" where
  "formatRecord r =
     (case ToString (nullish (optMember r (lit ''memory'')) (JStr [])) of
        Inl e \<Rightarrow> Inl e
      | Inr s \<Rightarrow>
          let mem = normalizeOneLine s
          in case round_js (nullish (optMember r (lit ''score'')) (JNum jsZero)) 3 of
               Inl e \<Rightarrow> Inl e
             | Inr score \<Rightarrow>
                 (case ToString score of
                    Inl e \<Rightarrow> Inl e
                  | Inr sc \<Rightarrow> Inr (mem @ lit '' (relevance: '' @ sc @ lit '')'')))"

text \<open>\<open>xs.map(f)\<close> for a callback that may throw: the first exception ends the loop.\<close>

fun mapResult :: "('a \<Rightarrow> exn + 'b) \<Rightarrow> 'a list \<Rightarrow> exn + 'b list" where
  "mapResult f [] = Inr []"
| "mapResult f (x # xs) =
     (case f x of
        Inl e \<Rightarrow> Inl e
      | Inr y \<Rightarrow> (case mapResult f xs of Inl e \<Rightarrow> Inl e | Inr ys \<Rightarrow> Inr (y # ys)))"

text \<open>\<open>xs.join(sep)\<close> on an array of strings.\<close>

fun joinStrings :: "jsstring \<Rightarrow> jsstring list \<Rightarrow> jsstring" where
  "joinStrings sep [] = []"
| "joinStrings sep [x] = x"
| "joinStrings sep (x # y # ys) = x @ sep @ joinStrings sep (y # ys)"

text \<open>The \<open>search-memories\<close> case after the search has returned \<open>results\<close>.\<close>

definition formatSearch :: "jsval \<Rightarrow> jsval \<Rightarrow> exn + ToolResult" where
  "formatSearch results returnAll =
     (case results of
        JArr rs \<Rightarrow>
          if rs = [] then Inr (textResult (lit ''No memories found'') False)
          else if ToBoolean returnAll then
            (case mapResult formatRecord (take 5 rs) of
               Inl e \<Rightarrow> Inl e
             | Inr fs \<Rightarrow>
                 let formatted = joinStrings (lit ''; '') fs
                 in Inr (textResult
                           (if formatted \<noteq> [] then formatted else lit ''No memories found'')
                           False))
          else
            let topResult = hd rs
            in (case ToString (nullish (optMember topResult (lit ''memory'')) (JStr [])) of
                  Inl e \<Rightarrow> Inl e
                | Inr s \<Rightarrow>
                    let memory = normalizeOneLine s;
                        response = (if memory \<noteq> [] then memory
                                    else lit ''No relevant memory found'')
                    in Inr (textResult response False))
      | _ \<Rightarrow> Inr (textResult (lit ''No memories found'') False))"

text \<open>The body of the \<open>try\<close> block: \<open>Inl\<close> is an exception leaving it.\<close>

definition handlerBody :: "config \<Rightarrow> memoryClient \<Rightarrow> request \<Rightarrow> exn + ToolResult" where
  "handlerBody cfg client req =
     (case arguments req of
        None \<Rightarrow> Inl (JsError (lit ''No arguments provided''))
      | Some args \<Rightarrow>
          if name req = lit ''add-memory'' then
            (let added = addMemory cfg client (getArg args ''content'') (getArg args ''userId'')
             in Inr (textResult (lit ''Memory added successfully'') False))
          else if name req = lit ''search-memories'' then
            (let results =
                   searchMemories cfg client (getArg args ''query'') (getArg args ''userId'')
             in formatSearch results (getArg args ''returnAll''))
          else Inr (textResult (lit ''Unknown tool: '' @ name req) True))"

text \<open>
  The handler registered for call-tool requests: the body with its \<open>catch\<close>, which
  answers \<open>Error: \<close> and the message of an \<open>Error\<close>, or the string of any other value
  thrown. \<open>Inl\<close> is an exception that leaves the handler.
\<close>

definition callTool :: "config \<Rightarrow> memoryClient \<Rightarrow> request \<Rightarrow> exn + ToolResult" where
  "callTool cfg client req =
     (case handlerBody cfg client req of
        Inr result \<Rightarrow> Inr result
      | Inl (JsError message) \<Rightarrow> Inr (textResult (lit ''Error: '' @ message) True)
      | Inl (Thrown v) \<Rightarrow>
          (case ToString v of
             Inl e \<Rightarrow> Inl e
           | Inr s \<Rightarrow> Inr (textResult (lit ''Error: '' @ s) True)))"

section \<open>Example inputs\<close>

text \<open>
  The records of the worked example: memory texts \<open>"Loves\n\nhiking"\<close> and
  \<open>"Owns a dog"\<close> with the scores \<open>0.8765\<close> and \<open>0.5\<close>, each score the number that
  its decimal literal denotes.
\<close>

definition lovesHiking :: jsstring where
  "lovesHiking = lit ''Loves'' @ [0xA, 0xA] @ lit ''hiking''"

definition exampleRecords :: "jsval list" where
  "exampleRecords =
     [JObj [(lit ''memory'', JStr lovesHiking),
            (lit ''score'', JNum (StringToNumber (lit ''0.8765'')))],
      JObj [(lit ''memory'', JStr (lit ''Owns a dog'')),
            (lit ''score'', JNum (StringToNumber (lit ''0.5'')))]]"

text \<open>A client whose search finds the example records, and whose add succeeds.\<close>

definition exampleClient :: memoryClient where
  "exampleClient =
     \<lparr>add = (\<lambda>messages u. Resolved (JArr [])),
      search = (\<lambda>query u. Resolved (JArr exampleRecords))\<rparr>"

text \<open>A client whose calls all fail, and one whose search finds nothing.\<close>

definition failingClient :: memoryClient where
  "failingClient =
     \<lparr>add = (\<lambda>messages u. Rejected (JsError (lit ''fetch failed''))),
      search = (\<lambda>query u. Rejected (JsError (lit ''fetch failed'')))\<rparr>"

definition emptyClient :: memoryClient where
  "emptyClient =
     \<lparr>add = (\<lambda>messages u. Resolved (JArr [])),
      search = (\<lambda>query u. Resolved (JArr []))\<rparr>"

text \<open>
  A client whose search finds one record with an object for its memory text, the object
  having an own property \<open>toString\<close>.
\<close>

definition oddClient :: memoryClient where
  "oddClient =
     \<lparr>add = (\<lambda>messages u. Resolved (JArr [])),
      search = (\<lambda>query u. Resolved
                 (JArr [JObj [(lit ''memory'', JObj [(lit ''toString'', JNull)])]]))\<rparr>"

text \<open>
  A client whose search finds one record, its memory text with white space around it and
  runs of tabs, line breaks and spaces inside.
\<close>

definition paddedText :: jsstring where
  "paddedText = lit ''  Loves'' @ [0x9, 0xD, 0xA] @ lit ''hiking   daily ''"

definition paddedClient :: memoryClient where
  "paddedClient =
     \<lparr>add = (\<lambda>messages u. Resolved (JArr [])),
      search = (\<lambda>query u. Resolved (JArr [JObj [(lit ''memory'', JStr paddedText)]]))\<rparr>"

definition exampleConfig :: config where
  "exampleConfig = \<lparr>apiKey = lit ''m0-key'', userId = lit ''mem0-mcp-user''\<rparr>"

definition addArgs :: "(jsstring \<times> jsval) list" where
  "addArgs = [(lit ''content'', JStr (lit ''Loves hiking'')), (lit ''userId'', JStr (lit ''alice''))]"

definition searchArgs :: "(jsstring \<times> jsval) list" where
  "searchArgs = [(lit ''query'', JStr (lit ''hobbies'')), (lit ''userId'', JStr (lit ''alice''))]"

definition searchAllArgs :: "(jsstring \<times> jsval) list" where
  "searchAllArgs =
     [(lit ''query'', JStr (lit ''hobbies'')), (lit ''userId'', JStr (lit ''alice'')),
      (lit ''returnAll'', JBool True)]"

text \<open>
  The recursive functions on numbers are unfolded on demand only: their equations are
  unconditional.
\<close>

declare bitLength.simps [simp del]
declare decDigits.simps [simp del]
declare leadShift.simps [simp del]
declare stripZeros.simps [simp del]

section \<open>Properties of the normaliser\<close>

lemma isWhiteSpace_space: "isWhiteSpace 0x20"
  by (simp add: isWhiteSpace_def)

lemma isCrLfTab_isWhiteSpace: "isCrLfTab c \<Longrightarrow> isWhiteSpace c"
  by (auto simp: isCrLfTab_def isWhiteSpace_def)

lemma not_isCrLfTab_space: "\<not> isCrLfTab 0x20"
  by (simp add: isCrLfTab_def)

lemma replaceRuns_head:
  "xs \<noteq> [] \<Longrightarrow> \<not> p (hd xs) \<Longrightarrow> replaceRuns p xs \<noteq> [] \<and> hd (replaceRuns p xs) = hd xs"
  by (cases xs) auto

lemma dropWhile_head: "dropWhile p xs \<noteq> [] \<Longrightarrow> \<not> p (hd (dropWhile p xs))"
  using hd_dropWhile by blast

lemma replaceRuns_dropWhile_head:
  "replaceRuns p (dropWhile p cs) \<noteq> [] \<longrightarrow> \<not> p (hd (replaceRuns p (dropWhile p cs)))"
proof (cases "dropWhile p cs")
  case Nil
  then show ?thesis by (simp only: replaceRuns.simps) simp
next
  case (Cons a as)
  then have "\<not> p a" using dropWhile_head [of p cs] by (simp only: list.sel) simp
  with Cons show ?thesis by (simp only: replaceRuns.simps) simp
qed

lemma singleSpaced_Cons:
  "singleSpaced (c # cs) =
     ((isWhiteSpace c \<longrightarrow> c = 0x20 \<and> (cs \<noteq> [] \<longrightarrow> \<not> isWhiteSpace (hd cs))) \<and> singleSpaced cs)"
  by (cases cs) auto

lemma singleSpaced_replaceRuns: "singleSpaced (replaceRuns isWhiteSpace xs)"
proof (induction isWhiteSpace xs rule: replaceRuns.induct)
  case 1
  show ?case by simp
next
  case (2 c cs)
  show ?case
  proof (cases "isWhiteSpace c")
    case True
    let ?r = "dropWhile isWhiteSpace cs"
    have "replaceRuns isWhiteSpace ?r \<noteq> [] \<longrightarrow> \<not> isWhiteSpace (hd (replaceRuns isWhiteSpace ?r))"
      by (rule replaceRuns_dropWhile_head)
    with True 2 show ?thesis by (simp add: singleSpaced_Cons)
  next
    case False
    with 2 show ?thesis by (simp add: singleSpaced_Cons)
  qed
qed

lemma replaceRuns_singleSpaced: "singleSpaced xs \<Longrightarrow> replaceRuns isWhiteSpace xs = xs"
proof (induction xs rule: singleSpaced.induct)
  case 1 show ?case by simp
next
  case (2 c) then show ?case by simp
next
  case (3 c d cs) then show ?case by auto
qed

lemma replaceRuns_none: "\<forall>c \<in> set xs. \<not> p c \<Longrightarrow> replaceRuns p xs = xs"
  by (induction xs) auto

lemma singleSpaced_no_CrLfTab: "singleSpaced xs \<Longrightarrow> c \<in> set xs \<Longrightarrow> \<not> isCrLfTab c"
proof (induction xs rule: singleSpaced.induct)
  case 1 then show ?case by simp
next
  case (2 c') then show ?case using isCrLfTab_isWhiteSpace not_isCrLfTab_space by auto
next
  case (3 c' d cs) then show ?case using isCrLfTab_isWhiteSpace not_isCrLfTab_space by auto
qed

lemma singleSpaced_append_left: "singleSpaced (xs @ ys) \<Longrightarrow> singleSpaced xs"
proof (induction xs rule: singleSpaced.induct)
  case 1 show ?case by simp
next
  case (2 c) then show ?case by (cases ys) auto
next
  case (3 c d cs) then show ?case by auto
qed

lemma singleSpaced_dropWhile: "singleSpaced xs \<Longrightarrow> singleSpaced (dropWhile p xs)"
proof (induction xs)
  case Nil show ?case by simp
next
  case (Cons c cs) then show ?case by (auto simp: singleSpaced_Cons)
qed

lemma rev_dropWhile_rev_prefix: "\<exists>zs. xs = rev (dropWhile p (rev xs)) @ zs"
proof -
  have "rev xs = takeWhile p (rev xs) @ dropWhile p (rev xs)" by simp
  then have "xs = rev (dropWhile p (rev xs)) @ rev (takeWhile p (rev xs))"
    by (metis rev_append rev_rev_ident)
  then show ?thesis ..
qed

lemma singleSpaced_trim: "singleSpaced xs \<Longrightarrow> singleSpaced (trim xs)"
proof -
  assume a: "singleSpaced xs"
  let ?a = "dropWhile isWhiteSpace xs"
  from a have s: "singleSpaced ?a" by (rule singleSpaced_dropWhile)
  obtain zs where "?a = rev (dropWhile isWhiteSpace (rev ?a)) @ zs"
    using rev_dropWhile_rev_prefix by blast
  with s have "singleSpaced (rev (dropWhile isWhiteSpace (rev ?a)))"
    using singleSpaced_append_left by metis
  then show ?thesis by (simp add: trim_def)
qed

lemma trim_trim: "trim (trim xs) = trim xs"
proof -
  let ?a = "dropWhile isWhiteSpace xs"
  let ?b = "rev (dropWhile isWhiteSpace (rev ?a))"
  obtain zs where z: "?a = ?b @ zs" using rev_dropWhile_rev_prefix by blast
  have "dropWhile isWhiteSpace ?b = ?b"
  proof (cases ?b)
    case Nil then show ?thesis by (simp only: dropWhile.simps)
  next
    case (Cons b bs)
    with z have a: "?a = b # (bs @ zs)" by (simp only: append_Cons)
    then have "\<not> isWhiteSpace b" using dropWhile_head [of isWhiteSpace xs] by (simp only: list.sel) simp
    with Cons show ?thesis by (simp only: dropWhile.simps if_False)
  qed
  then show ?thesis by (simp add: trim_def)
qed

lemma set_trim: "set (trim xs) \<subseteq> set xs"
proof -
  have "set (trim xs) = set (dropWhile isWhiteSpace (rev (dropWhile isWhiteSpace xs)))"
    by (simp add: trim_def)
  also have "\<dots> \<subseteq> set (rev (dropWhile isWhiteSpace xs))" by (rule set_dropWhileD[THEN subsetI])
  also have "\<dots> \<subseteq> set xs" using set_dropWhileD by fastforce
  finally show ?thesis .
qed

lemma normalizeOneLine_singleSpaced: "singleSpaced (normalizeOneLine s)"
  unfolding normalizeOneLine_def by (rule singleSpaced_trim) (rule singleSpaced_replaceRuns)

lemma trim_last: "trim s \<noteq> [] \<Longrightarrow> \<not> isWhiteSpace (last (trim s))"
proof -
  assume a: "trim s \<noteq> []"
  let ?d = "dropWhile isWhiteSpace (rev (dropWhile isWhiteSpace s))"
  from a have "?d \<noteq> []" by (simp only: trim_def rev_is_Nil_conv not_False_eq_True)
  then have "\<not> isWhiteSpace (hd ?d)" by (rule dropWhile_head)
  moreover from \<open>?d \<noteq> []\<close> have "last (rev ?d) = hd ?d" by (simp only: last_rev)
  ultimately show ?thesis by (simp only: trim_def) simp
qed

lemma trim_hd: "trim s \<noteq> [] \<Longrightarrow> \<not> isWhiteSpace (hd (trim s))"
proof -
  assume a: "trim s \<noteq> []"
  let ?a = "dropWhile isWhiteSpace s"
  obtain zs where z: "?a = trim s @ zs"
    unfolding trim_def using rev_dropWhile_rev_prefix by blast
  with a have "hd (trim s) = hd ?a" by (metis hd_append2)
  moreover from a z have "?a \<noteq> []" by auto
  ultimately show ?thesis using dropWhile_head by metis
qed

text \<open>The shape of a normalised text.\<close>

lemma normalizeOneLine_shape:
  "singleSpaced (normalizeOneLine s) \<and>
   (\<forall>c \<in> set (normalizeOneLine s). \<not> isCrLfTab c) \<and>
   (normalizeOneLine s \<noteq> [] \<longrightarrow>
      \<not> isWhiteSpace (hd (normalizeOneLine s)) \<and> \<not> isWhiteSpace (last (normalizeOneLine s)))"
proof (intro conjI impI ballI)
  show s: "singleSpaced (normalizeOneLine s)" by (rule normalizeOneLine_singleSpaced)
  fix c assume "c \<in> set (normalizeOneLine s)"
  with s show "\<not> isCrLfTab c" by (rule singleSpaced_no_CrLfTab)
next
  assume "normalizeOneLine s \<noteq> []"
  then show "\<not> isWhiteSpace (hd (normalizeOneLine s))"
    unfolding normalizeOneLine_def by (rule trim_hd)
next
  assume "normalizeOneLine s \<noteq> []"
  then show "\<not> isWhiteSpace (last (normalizeOneLine s))"
    unfolding normalizeOneLine_def by (rule trim_last)
qed

text \<open>Normalising changes white space only.\<close>

lemma filter_dropWhile_disjoint:
  "(\<And>c. p c \<Longrightarrow> \<not> q c) \<Longrightarrow> filter q (dropWhile p xs) = filter q xs"
  by (induction xs) auto

lemma filter_replaceRuns:
  assumes "\<And>c. p c \<Longrightarrow> isWhiteSpace c"
  shows "filter (\<lambda>c. \<not> isWhiteSpace c) (replaceRuns p s) = filter (\<lambda>c. \<not> isWhiteSpace c) s"
  using assms
proof (induction p s rule: replaceRuns.induct)
  case (1 p)
  show ?case by simp
next
  case (2 p c cs)
  note ws = 2(3)
  show ?case
  proof (cases "p c")
    case True
    then have w: "isWhiteSpace c" by (rule ws)
    have "filter (\<lambda>c. \<not> isWhiteSpace c) (dropWhile p cs) = filter (\<lambda>c. \<not> isWhiteSpace c) cs"
      by (rule filter_dropWhile_disjoint) (simp add: ws)
    with True w 2(1) [OF True ws] show ?thesis by (simp add: isWhiteSpace_space)
  next
    case False
    with 2(2) [OF False ws] show ?thesis by simp
  qed
qed

lemma filter_trim:
  "filter (\<lambda>c. \<not> isWhiteSpace c) (trim s) = filter (\<lambda>c. \<not> isWhiteSpace c) s"
  by (simp add: trim_def rev_filter [symmetric] filter_dropWhile_disjoint)

lemma normalizeOneLine_keeps:
  "filter (\<lambda>c. \<not> isWhiteSpace c) (normalizeOneLine s) = filter (\<lambda>c. \<not> isWhiteSpace c) s"
  by (simp add: normalizeOneLine_def filter_trim filter_replaceRuns isCrLfTab_isWhiteSpace)

text \<open>
  Claim C9: the one-line normaliser is idempotent. Normalising a text that is already
  the result of a normalisation returns it unchanged.
\<close>

theorem normalizeOneLine_idempotent:
  "normalizeOneLine (normalizeOneLine s) = normalizeOneLine s"
proof -
  let ?m = "replaceRuns isWhiteSpace (replaceRuns isCrLfTab s)"
  let ?n = "trim ?m"
  have sn: "singleSpaced ?n" by (rule singleSpaced_trim) (rule singleSpaced_replaceRuns)
  then have "\<forall>c \<in> set ?n. \<not> isCrLfTab c" using singleSpaced_no_CrLfTab by blast
  then have "replaceRuns isCrLfTab ?n = ?n" by (rule replaceRuns_none)
  moreover from sn have "replaceRuns isWhiteSpace ?n = ?n" by (rule replaceRuns_singleSpaced)
  ultimately show ?thesis by (simp add: normalizeOneLine_def trim_trim)
qed

section \<open>Properties of the handler\<close>

subsection \<open>What can be thrown\<close>

text \<open>
  Every exception raised by a conversion or by the formatting is an \<open>Error\<close>: values
  that are not errors can only come out of the memory client, whose rejections the two
  helpers catch.
\<close>

lemma ToString_throws_Error:
  "ToString v \<noteq> Inl (Thrown x)" "joinElements vs \<noteq> Inl (Thrown x)"
  by (induction v and vs rule: ToString_joinElements.induct)
     (auto split: sum.splits jsval.splits)

lemma ToNumber_throws_Error: "ToNumber v \<noteq> Inl (Thrown x)"
  using ToString_throws_Error by (cases v) (auto split: sum.splits)

lemma round_js_throws_Error: "round_js v p \<noteq> Inl (Thrown x)"
  using ToNumber_throws_Error by (auto simp: round_js_def split: sum.splits)

lemma formatRecord_throws_Error: "formatRecord r \<noteq> Inl (Thrown x)"
  using ToString_throws_Error(1) round_js_throws_Error
  by (auto simp: formatRecord_def Let_def split: sum.splits)

lemma mapResult_throws:
  "mapResult f xs = Inl e \<Longrightarrow> \<exists>x \<in> set xs. f x = Inl e"
  by (induction xs) (auto split: sum.splits)

lemma formatSearch_throws_Error: "formatSearch results ra \<noteq> Inl (Thrown x)"
proof
  assume a: "formatSearch results ra = Inl (Thrown x)"
  show False
  proof (cases results)
    case (JArr rs)
    with a show False
      using mapResult_throws [of formatRecord "take 5 rs" "Thrown x"]
        formatRecord_throws_Error ToString_throws_Error(1)
      by (auto simp: formatSearch_def Let_def split: if_splits sum.splits)
  qed (use a in \<open>auto simp: formatSearch_def\<close>)
qed

lemma handlerBody_throws_Error: "handlerBody cfg client req \<noteq> Inl (Thrown x)"
  using formatSearch_throws_Error
  by (auto simp: handlerBody_def Let_def split: option.splits if_splits)

subsection \<open>The shape of a result\<close>

lemma formatSearch_textResult:
  "formatSearch results ra = Inr r \<Longrightarrow> \<exists>t. r = textResult t False"
  by (cases results) (auto simp: formatSearch_def Let_def split: if_splits sum.splits)

lemma handlerBody_textResult:
  "handlerBody cfg client req = Inr r \<Longrightarrow> \<exists>t b. r = textResult t b"
  using formatSearch_textResult
  by (fastforce simp: handlerBody_def Let_def split: option.splits if_splits)

lemma callTool_textResult: "\<exists>t b. callTool cfg client req = Inr (textResult t b)"
proof (cases "handlerBody cfg client req")
  case (Inr r)
  then show ?thesis using handlerBody_textResult [OF Inr] by (auto simp: callTool_def)
next
  case (Inl e)
  then show ?thesis using handlerBody_throws_Error [of cfg client req]
    by (cases e) (auto simp: callTool_def)
qed

subsection \<open>The search case\<close>

lemma callTool_search:
  "callTool cfg client \<lparr>name = lit ''search-memories'', arguments = Some args\<rparr> =
     (case formatSearch
             (searchMemories cfg client (getArg args ''query'') (getArg args ''userId''))
             (getArg args ''returnAll'') of
        Inr result \<Rightarrow> Inr result
      | Inl (JsError message) \<Rightarrow> Inr (textResult (lit ''Error: '' @ message) True)
      | Inl (Thrown v) \<Rightarrow>
          (case ToString v of
             Inl e \<Rightarrow> Inl e
           | Inr s \<Rightarrow> Inr (textResult (lit ''Error: '' @ s) True)))"
proof -
  have "lit ''search-memories'' \<noteq> lit ''add-memory''" by (simp add: lit_def)
  then show ?thesis by (simp add: callTool_def handlerBody_def)
qed

lemma getArg_searchArgs:
  "getArg searchArgs ''query'' = JStr (lit ''hobbies'')"
  "getArg searchArgs ''userId'' = JStr (lit ''alice'')"
  "getArg searchArgs ''returnAll'' = JUndefined"
  by (simp_all add: getArg_def searchArgs_def lit_def)

lemma getArg_searchAllArgs:
  "getArg searchAllArgs ''query'' = JStr (lit ''hobbies'')"
  "getArg searchAllArgs ''userId'' = JStr (lit ''alice'')"
  "getArg searchAllArgs ''returnAll'' = JBool True"
  by (simp_all add: getArg_def searchAllArgs_def lit_def)

lemma normalizeOneLine_example:
  "normalizeOneLine lovesHiking = lit ''Loves hiking''"
  by (simp add: lovesHiking_def normalizeOneLine_def trim_def isWhiteSpace_def isCrLfTab_def
      lit_def)

lemma normalizeOneLine_padded: "normalizeOneLine paddedText = lit ''Loves hiking daily''"
  by (simp add: paddedText_def normalizeOneLine_def trim_def isWhiteSpace_def isCrLfTab_def
      lit_def)

lemma normalizeOneLine_example2:
  "normalizeOneLine (lit ''Owns a dog'') = lit ''Owns a dog''"
  by (simp add: normalizeOneLine_def trim_def isWhiteSpace_def isCrLfTab_def lit_def)

section \<open>Reading back what toFixed prints\<close>





lemma decDigits_nonempty: "decDigits n \<noteq> []"
  by (subst decDigits.simps) simp








lemma StringToNumber_decimal:
  assumes "trim s = c # cs" and "isDigit c" and "cs \<noteq> []"
    and "isDigit (hd cs) \<or> hd cs = 0x2E"
  shows "StringToNumber s = parseUnsignedDecimal False (c # cs)"
  using assms by (auto simp: StringToNumber_def isDigit_def)






section \<open>Evaluating the worked example\<close>

text \<open>
  The conversions are evaluated in steps, one function at a time, each step on closed
  terms.
\<close>

lemmas parse_eval = parseUnsignedDecimal_def parseExponent_def isDigit_def digitsValue_def
  digitValue_def roundToDouble_def roundHalfEven_def pow2_def pow10_def Let_def
  bitLength.simps lit_def

lemmas print_eval = shortestAt_def decExponent_def readsBack_def roundToDouble_def
  roundHalfEven_def pow2_def pow10_def Let_def bitLength.simps decDigits.simps leadShift.simps

lemma StringToNumber_8765: "StringToNumber (lit ''0.8765'') = Fin 7894810146780479 (- 53)"
proof -
  have "trim (lit ''0.8765'') = 0x30 # lit ''.8765''"
    by (simp add: trim_def isWhiteSpace_def lit_def)
  then have "StringToNumber (lit ''0.8765'') = parseUnsignedDecimal False (0x30 # lit ''.8765'')"
    by (rule StringToNumber_decimal) (simp_all add: isDigit_def lit_def)
  also have "\<dots> = Fin 7894810146780479 (- 53)"
    by (simp add: parse_eval cong: let_weak_cong)
  finally show ?thesis .
qed

lemma StringToNumber_5: "StringToNumber (lit ''0.5'') = Fin 4503599627370496 (- 53)"
proof -
  have "trim (lit ''0.5'') = 0x30 # lit ''.5''"
    by (simp add: trim_def isWhiteSpace_def lit_def)
  then have "StringToNumber (lit ''0.5'') = parseUnsignedDecimal False (0x30 # lit ''.5'')"
    by (rule StringToNumber_decimal) (simp_all add: isDigit_def lit_def)
  also have "\<dots> = Fin 4503599627370496 (- 53)"
    by (simp add: parse_eval cong: let_weak_cong)
  finally show ?thesis .
qed

lemma toFixed_8765: "toFixed (Fin 7894810146780479 (- 53)) 3 = lit ''0.876''"
  by (simp add: toFixed_def pow2_def Let_def zeros_def lit_def decDigits.simps
      cong: let_weak_cong)

lemma toFixed_5: "toFixed (Fin 4503599627370496 (- 53)) 3 = lit ''0.500''"
  by (simp add: toFixed_def pow2_def Let_def zeros_def lit_def decDigits.simps
      cong: let_weak_cong)

lemma StringToNumber_876: "StringToNumber (lit ''0.876'') = Fin 7890306547153109 (- 53)"
proof -
  have "trim (lit ''0.876'') = 0x30 # lit ''.876''"
    by (simp add: trim_def isWhiteSpace_def lit_def)
  then have "StringToNumber (lit ''0.876'') = parseUnsignedDecimal False (0x30 # lit ''.876'')"
    by (rule StringToNumber_decimal) (simp_all add: isDigit_def lit_def)
  also have "\<dots> = Fin 7890306547153109 (- 53)"
    by (simp add: parse_eval cong: let_weak_cong)
  finally show ?thesis .
qed

lemma StringToNumber_500: "StringToNumber (lit ''0.500'') = Fin 4503599627370496 (- 53)"
proof -
  have "trim (lit ''0.500'') = 0x30 # lit ''.500''"
    by (simp add: trim_def isWhiteSpace_def lit_def)
  then have "StringToNumber (lit ''0.500'') = parseUnsignedDecimal False (0x30 # lit ''.500'')"
    by (rule StringToNumber_decimal) (simp_all add: isDigit_def lit_def)
  also have "\<dots> = Fin 4503599627370496 (- 53)"
    by (simp add: parse_eval cong: let_weak_cong)
  finally show ?thesis .
qed

lemma shortestFrom_numeral:
  "shortestFrom m e k (numeral f) =
     (case shortestAt m e k False of
        Some r \<Rightarrow> r
      | None \<Rightarrow> shortestFrom m e (Suc k) (pred_numeral f))"
  by (simp only: numeral_eq_Suc shortestFrom.simps)

lemma shortestAt_876:
  "shortestAt 7890306547153109 (- 53) 1 False = None"
  "shortestAt 7890306547153109 (- 53) 2 False = None"
  "shortestAt 7890306547153109 (- 53) 3 False = Some (876, 0)"
  by (simp_all add: print_eval cong: let_weak_cong)

lemma numberToString_876: "numberToString (Fin 7890306547153109 (- 53)) = lit ''0.876''"
proof -
  have "shortestFrom 7890306547153109 (- 53) 1 16 = (876, 0)"
    by (simp add: shortestFrom_numeral shortestAt_876 del: One_nat_def)
  then show ?thesis
    by (simp add: formatDecimal_def zeros_def Let_def lit_def stripZeros.simps decDigits.simps
        del: One_nat_def cong: let_weak_cong)
qed

lemma shortestAt_5: "shortestAt 4503599627370496 (- 53) 1 False = Some (5, 0)"
  by (simp add: print_eval cong: let_weak_cong)

lemma numberToString_5: "numberToString (Fin 4503599627370496 (- 53)) = lit ''0.5''"
proof -
  have "shortestFrom 4503599627370496 (- 53) 1 16 = (5, 0)"
    by (simp add: shortestFrom_numeral shortestAt_5 del: One_nat_def)
  then show ?thesis
    by (simp add: formatDecimal_def zeros_def Let_def lit_def stripZeros.simps decDigits.simps
        del: One_nat_def cong: let_weak_cong)
qed

lemma formatRecord_example1:
  "formatRecord (JObj [(lit ''memory'', JStr lovesHiking),
                       (lit ''score'', JNum (StringToNumber (lit ''0.8765'')))]) =
     Inr (lit ''Loves hiking (relevance: 0.876)'')"
proof -
  have k: "lit ''score'' \<noteq> lit ''memory''" by (simp add: lit_def)
  have "lit ''Loves hiking'' @ lit '' (relevance: '' @ lit ''0.876'' @ lit '')'' =
        lit ''Loves hiking (relevance: 0.876)''"
    by (simp add: lit_def)
  with k show ?thesis
    by (simp add: formatRecord_def nullish_def round_js_def StringToNumber_8765 toFixed_8765
        StringToNumber_876 numberToString_876 normalizeOneLine_example
        del: numberToString.simps)
qed

lemma formatRecord_example2:
  "formatRecord (JObj [(lit ''memory'', JStr (lit ''Owns a dog'')),
                       (lit ''score'', JNum (StringToNumber (lit ''0.5'')))]) =
     Inr (lit ''Owns a dog (relevance: 0.5)'')"
proof -
  have k: "lit ''score'' \<noteq> lit ''memory''" by (simp add: lit_def)
  have "lit ''Owns a dog'' @ lit '' (relevance: '' @ lit ''0.5'' @ lit '')'' =
        lit ''Owns a dog (relevance: 0.5)''"
    by (simp add: lit_def)
  with k show ?thesis
    by (simp add: formatRecord_def nullish_def round_js_def StringToNumber_5 toFixed_5
        StringToNumber_500 numberToString_5 normalizeOneLine_example2
        del: numberToString.simps)
qed

lemma mapResult_example:
  "mapResult formatRecord (take 5 exampleRecords) =
     Inr [lit ''Loves hiking (relevance: 0.876)'', lit ''Owns a dog (relevance: 0.5)'']"
  by (simp add: exampleRecords_def formatRecord_example1 formatRecord_example2)

lemma joinStrings_example:
  "joinStrings (lit ''; '')
     [lit ''Loves hiking (relevance: 0.876)'', lit ''Owns a dog (relevance: 0.5)''] =
   lit ''Loves hiking (relevance: 0.876); Owns a dog (relevance: 0.5)''"
  by (simp add: lit_def)

section \<open>Rounding a score\<close>










section \<open>The ranked list\<close>

lemma mapResult_length: "mapResult f xs = Inr ys \<Longrightarrow> length ys = length xs"
  by (induction xs arbitrary: ys) (auto split: sum.splits)

lemma mapResult_nth:
  "mapResult f xs = Inr ys \<Longrightarrow> i < length xs \<Longrightarrow> f (xs ! i) = Inr (ys ! i)"
proof (induction xs arbitrary: ys i)
  case Nil
  then show ?case by simp
next
  case (Cons x xs)
  then show ?case by (cases i) (auto split: sum.splits)
qed

lemma joinStrings_Nil_iff:
  "joinStrings sep xs = [] \<Longrightarrow> sep \<noteq> [] \<Longrightarrow> xs = [] \<or> xs = [[]]"
  by (induction sep xs rule: joinStrings.induct) auto

lemma formatRecord_nonempty: "formatRecord r = Inr s \<Longrightarrow> s \<noteq> []"
  by (auto simp: formatRecord_def Let_def lit_def split: sum.splits)

lemma formatRecord_text_number:
  assumes "optMember r (lit ''memory'') = JStr m"
    and "optMember r (lit ''score'') = JNum x" and "isFinite x"
  shows "formatRecord r =
     Inr (normalizeOneLine m @ lit '' (relevance: '' @
          numberToString (StringToNumber (toFixed x 3)) @ lit '')'')"
  using assms
  by (simp add: formatRecord_def nullish_def round_js_def del: numberToString.simps)

lemma search_returnAll_general:
  assumes "search client (getArg args ''query'')
             (orElse (getArg args ''userId'') (JStr (defaultUserId cfg))) = Resolved (JArr rs)"
    and "rs \<noteq> []"
    and "ToBoolean (getArg args ''returnAll'')"
    and "mapResult formatRecord (take 5 rs) = Inr fs"
  shows "callTool cfg client \<lparr>name = lit ''search-memories'', arguments = Some args\<rparr> =
           Inr \<lparr>content = [\<lparr>type = lit ''text'', text = joinStrings (lit ''; '') fs\<rparr>],
                isError = False\<rparr>"
    and "joinStrings (lit ''; '') fs \<noteq> []"
    and "length fs = min 5 (length rs)"
    and "\<forall>i < length fs. formatRecord (rs ! i) = Inr (fs ! i)"
proof -
  from assms(1)
  have s: "searchMemories cfg client (getArg args ''query'') (getArg args ''userId'') = JArr rs"
    by (simp add: searchMemories_def)
  show len: "length fs = min 5 (length rs)"
    using mapResult_length [OF assms(4)] by (simp add: min.commute)
  show nth: "\<forall>i < length fs. formatRecord (rs ! i) = Inr (fs ! i)"
  proof (intro allI impI)
    fix i assume "i < length fs"
    with len have "i < length (take 5 rs)" by simp
    from mapResult_nth [OF assms(4) this] show "formatRecord (rs ! i) = Inr (fs ! i)"
      using \<open>i < length (take 5 rs)\<close> by simp
  qed
  show ne: "joinStrings (lit ''; '') fs \<noteq> []"
  proof
    assume "joinStrings (lit ''; '') fs = []"
    moreover have "lit ''; '' \<noteq> []" by (simp add: lit_def)
    ultimately have "fs = [] \<or> fs = [[]]" by (rule joinStrings_Nil_iff)
    moreover from len assms(2) have "fs \<noteq> []" by (cases rs) auto
    ultimately have "fs = [[]]" by simp
    with nth have "formatRecord (rs ! 0) = Inr []" by simp
    then show False using formatRecord_nonempty by blast
  qed
  from s assms(2,3,4) ne
  show "callTool cfg client \<lparr>name = lit ''search-memories'', arguments = Some args\<rparr> =
           Inr \<lparr>content = [\<lparr>type = lit ''text'', text = joinStrings (lit ''; '') fs\<rparr>],
                isError = False\<rparr>"
    by (simp add: callTool_search formatSearch_def textResult_def Let_def)
qed

lemma search_returnAll_example:
  "callTool exampleConfig exampleClient
       \<lparr>name = lit ''search-memories'', arguments = Some searchAllArgs\<rparr> =
     Inr \<lparr>content =
            [\<lparr>type = lit ''text'',
              text = lit ''Loves hiking (relevance: 0.876); Owns a dog (relevance: 0.5)''\<rparr>],
          isError = False\<rparr>"
proof -
  have h1: "search exampleClient (getArg searchAllArgs ''query'')
              (orElse (getArg searchAllArgs ''userId'') (JStr (defaultUserId exampleConfig))) =
            Resolved (JArr exampleRecords)"
    by (simp add: exampleClient_def)
  have h2: "exampleRecords \<noteq> []" by (simp add: exampleRecords_def)
  have h3: "ToBoolean (getArg searchAllArgs ''returnAll'')" by (simp add: getArg_searchAllArgs)
  from search_returnAll_general(1) [OF h1 h2 h3 mapResult_example]
  show ?thesis by (simp only: joinStrings_example)
qed

section \<open>The claims about dispatch\<close>

text \<open>
  Claim C10: every result of the call-tool handler, on every branch, has exactly one
  content block, and that block is of type \<open>text\<close>.
\<close>

theorem callTool_one_text_block:
  "\<exists>r t. callTool cfg client req = Inr r \<and> content r = [\<lparr>type = lit ''text'', text = t\<rparr>]"
  using callTool_textResult [of cfg client req] by (auto simp: textResult_def)

text \<open>
  Claim C2: an add-memory call is answered \<open>Memory added successfully\<close> with
  \<open>isError: false\<close>, whatever its arguments hold and whether the client's add resolves
  or rejects.
\<close>

theorem add_memory_confirms:
  "callTool cfg client \<lparr>name = lit ''add-memory'', arguments = Some args\<rparr> =
     Inr \<lparr>content = [\<lparr>type = lit ''text'', text = lit ''Memory added successfully''\<rparr>],
          isError = False\<rparr>"
  by (simp add: callTool_def handlerBody_def textResult_def)

text \<open>The same call on a client whose add resolves and on one whose add rejects.\<close>

theorem add_memory_confirms_witness:
  "add exampleClient [] JNull = Resolved (JArr []) \<and>
   add failingClient [] JNull = Rejected (JsError (lit ''fetch failed'')) \<and>
   callTool exampleConfig exampleClient \<lparr>name = lit ''add-memory'', arguments = Some addArgs\<rparr> =
     Inr \<lparr>content = [\<lparr>type = lit ''text'', text = lit ''Memory added successfully''\<rparr>],
          isError = False\<rparr> \<and>
   callTool exampleConfig failingClient \<lparr>name = lit ''add-memory'', arguments = Some addArgs\<rparr> =
     Inr \<lparr>content = [\<lparr>type = lit ''text'', text = lit ''Memory added successfully''\<rparr>],
          isError = False\<rparr>"
  using add_memory_confirms [of exampleConfig exampleClient addArgs]
    add_memory_confirms [of exampleConfig failingClient addArgs]
  by (simp add: exampleClient_def failingClient_def)

text \<open>
  Claim C5, as the specification words it: a call without arguments is answered with the
  text \<open>Error: no arguments provided\<close>. The handler throws
  \<open>new Error('No arguments provided')\<close>, so the text differs in the capital letter.
\<close>

theorem no_arguments_lowercase_counterexample:
  "callTool exampleConfig exampleClient \<lparr>name = lit ''add-memory'', arguments = None\<rparr> \<noteq>
     Inr \<lparr>content = [\<lparr>type = lit ''text'', text = lit ''Error: no arguments provided''\<rparr>],
          isError = True\<rparr>"
  by (simp add: callTool_def handlerBody_def textResult_def lit_def)

text \<open>
  Claim C5, amended: a call without arguments is answered with \<open>isError: true\<close> and the
  one text block \<open>Error: No arguments provided\<close>, whatever the tool name.
\<close>

theorem no_arguments_error:
  "callTool cfg client \<lparr>name = n, arguments = None\<rparr> =
     Inr \<lparr>content = [\<lparr>type = lit ''text'', text = lit ''Error: No arguments provided''\<rparr>],
          isError = True\<rparr>"
  by (simp add: callTool_def handlerBody_def textResult_def lit_def)

text \<open>
  Claim C8: with arguments present, a tool name other than \<open>add-memory\<close> and
  \<open>search-memories\<close> is answered with \<open>isError: true\<close> and the text
  \<open>Unknown tool: \<close> followed by the name; the answer is a result, not an exception.
\<close>

theorem unknown_tool_error:
  assumes "n \<noteq> lit ''add-memory''" and "n \<noteq> lit ''search-memories''"
  shows "callTool cfg client \<lparr>name = n, arguments = Some args\<rparr> =
     Inr \<lparr>content = [\<lparr>type = lit ''text'', text = lit ''Unknown tool: '' @ n\<rparr>],
          isError = True\<rparr>"
  using assms by (simp add: callTool_def handlerBody_def textResult_def)

theorem unknown_tool_error_witness:
  "lit ''delete-memory'' \<noteq> lit ''add-memory'' \<and>
   lit ''delete-memory'' \<noteq> lit ''search-memories'' \<and>
   callTool exampleConfig exampleClient \<lparr>name = lit ''delete-memory'', arguments = Some []\<rparr> =
     Inr \<lparr>content = [\<lparr>type = lit ''text'', text = lit ''Unknown tool: delete-memory''\<rparr>],
          isError = True\<rparr>"
proof -
  have h1: "lit ''delete-memory'' \<noteq> lit ''add-memory''" by (simp add: lit_def)
  have h2: "lit ''delete-memory'' \<noteq> lit ''search-memories''" by (simp add: lit_def)
  have "lit ''Unknown tool: '' @ lit ''delete-memory'' = lit ''Unknown tool: delete-memory''"
    by (simp add: lit_def)
  with h1 h2 show ?thesis
    using unknown_tool_error [OF h1 h2, of exampleConfig exampleClient "[]"] by simp
qed

section \<open>The claims about search\<close>

text \<open>
  Claim C7: when the client's search rejects, or resolves to the empty array, a
  search-memories call is answered \<open>No memories found\<close> with \<open>isError: false\<close>; the
  two cases give the same result.
\<close>

theorem search_nothing_found:
  assumes "search client (getArg args ''query'')
             (orElse (getArg args ''userId'') (JStr (defaultUserId cfg))) = Rejected e
           \<or> search client (getArg args ''query'')
             (orElse (getArg args ''userId'') (JStr (defaultUserId cfg))) = Resolved (JArr [])"
  shows "callTool cfg client \<lparr>name = lit ''search-memories'', arguments = Some args\<rparr> =
     Inr \<lparr>content = [\<lparr>type = lit ''text'', text = lit ''No memories found''\<rparr>],
          isError = False\<rparr>"
proof -
  from assms
  have "searchMemories cfg client (getArg args ''query'') (getArg args ''userId'') = JArr []"
    by (auto simp: searchMemories_def)
  then show ?thesis by (simp add: callTool_search formatSearch_def textResult_def)
qed

theorem search_nothing_found_witness:
  "search failingClient (JStr (lit ''hobbies'')) (JStr (lit ''alice'')) =
     Rejected (JsError (lit ''fetch failed'')) \<and>
   search emptyClient (JStr (lit ''hobbies'')) (JStr (lit ''alice'')) = Resolved (JArr []) \<and>
   callTool exampleConfig failingClient
       \<lparr>name = lit ''search-memories'', arguments = Some searchArgs\<rparr> =
     Inr \<lparr>content = [\<lparr>type = lit ''text'', text = lit ''No memories found''\<rparr>],
          isError = False\<rparr> \<and>
   callTool exampleConfig emptyClient
       \<lparr>name = lit ''search-memories'', arguments = Some searchArgs\<rparr> =
     Inr \<lparr>content = [\<lparr>type = lit ''text'', text = lit ''No memories found''\<rparr>],
          isError = False\<rparr>"
  using search_nothing_found
          [of failingClient searchArgs exampleConfig "JsError (lit ''fetch failed'')"]
    search_nothing_found [of emptyClient searchArgs exampleConfig]
  by (simp add: failingClient_def emptyClient_def)

text \<open>
  Claim C4, as the specification words it: whenever \<open>returnAll\<close> is false or omitted and
  the search finds a non-empty list, the text of the answer is the normalised memory text
  of the first record, or \<open>No relevant memory found\<close>. A first record whose memory is an
  object with an own property \<open>toString\<close> is a counterexample: \<open>String\<close> throws on it and
  the answer is an error result.
\<close>

theorem search_default_unconvertible_counterexample:
  "search oddClient (getArg searchArgs ''query'')
     (orElse (getArg searchArgs ''userId'') (JStr (defaultUserId exampleConfig))) =
     Resolved (JArr [JObj [(lit ''memory'', JObj [(lit ''toString'', JNull)])]]) \<and>
   getArg searchArgs ''returnAll'' = JUndefined \<and>
   callTool exampleConfig oddClient
       \<lparr>name = lit ''search-memories'', arguments = Some searchArgs\<rparr> =
     Inr \<lparr>content = [\<lparr>type = lit ''text'',
                       text = lit ''Error: Cannot convert object to primitive value''\<rparr>],
          isError = True\<rparr>"
proof -
  have e: "lit ''Error: '' @ lit ''Cannot convert object to primitive value'' =
           lit ''Error: Cannot convert object to primitive value''"
    by (simp add: lit_def)
  have "formatSearch
      (searchMemories exampleConfig oddClient (getArg searchArgs ''query'')
         (getArg searchArgs ''userId''))
      (getArg searchArgs ''returnAll'') =
      Inl (JsError (lit ''Cannot convert object to primitive value''))"
    by (simp add: searchMemories_def oddClient_def getArg_searchArgs formatSearch_def
        nullish_def)
  then have "callTool exampleConfig oddClient
       \<lparr>name = lit ''search-memories'', arguments = Some searchArgs\<rparr> =
     Inr \<lparr>content = [\<lparr>type = lit ''text'',
                       text = lit ''Error: Cannot convert object to primitive value''\<rparr>],
          isError = True\<rparr>"
    by (simp add: callTool_search textResult_def e)
  then show ?thesis by (simp add: oddClient_def getArg_searchArgs)
qed

text \<open>
  Claim C4, amended. When \<open>returnAll\<close> is false or omitted (or any other falsy value), the
  search finds a non-empty list and the memory of the first record converts to a string
  \<open>m\<close> (the empty string when the record has none), the text of the answer is \<open>m\<close>
  normalised to one line, with no score and nothing else, and \<open>No relevant memory found\<close>
  when the normalised text is empty. The normalised text has a single space for every run
  of white space, no carriage return, line feed or tab, no white space at either end, and
  the code units of \<open>m\<close> that are not white space, in their order. When the conversion
  throws, the answer is \<open>isError: true\<close> with \<open>Error: \<close> and the message.
\<close>

theorem search_default_first_memory:
  "(search client (getArg args ''query'')
       (orElse (getArg args ''userId'') (JStr (defaultUserId cfg))) =
       Resolved (JArr (r # rs)) \<and>
    \<not> ToBoolean (getArg args ''returnAll'') \<and>
    ToString (nullish (optMember r (lit ''memory'')) (JStr [])) = Inr m \<longrightarrow>
      callTool cfg client \<lparr>name = lit ''search-memories'', arguments = Some args\<rparr> =
        Inr \<lparr>content = [\<lparr>type = lit ''text'',
                          text = (if normalizeOneLine m = []
                                  then lit ''No relevant memory found''
                                  else normalizeOneLine m)\<rparr>],
             isError = False\<rparr> \<and>
      singleSpaced (normalizeOneLine m) \<and>
      (\<forall>c \<in> set (normalizeOneLine m). \<not> isCrLfTab c) \<and>
      (normalizeOneLine m \<noteq> [] \<longrightarrow>
         \<not> isWhiteSpace (hd (normalizeOneLine m)) \<and>
         \<not> isWhiteSpace (last (normalizeOneLine m))) \<and>
      filter (\<lambda>c. \<not> isWhiteSpace c) (normalizeOneLine m) =
        filter (\<lambda>c. \<not> isWhiteSpace c) m) \<and>
   (search client (getArg args ''query'')
       (orElse (getArg args ''userId'') (JStr (defaultUserId cfg))) =
       Resolved (JArr (r # rs)) \<and>
    \<not> ToBoolean (getArg args ''returnAll'') \<and>
    ToString (nullish (optMember r (lit ''memory'')) (JStr [])) = Inl ex \<longrightarrow>
      (\<exists>msg. ex = JsError msg \<and>
         callTool cfg client \<lparr>name = lit ''search-memories'', arguments = Some args\<rparr> =
           Inr \<lparr>content = [\<lparr>type = lit ''text'', text = lit ''Error: '' @ msg\<rparr>],
                isError = True\<rparr>))"
proof (intro conjI impI)
  assume a: "search client (getArg args ''query'')
       (orElse (getArg args ''userId'') (JStr (defaultUserId cfg))) =
       Resolved (JArr (r # rs)) \<and>
    \<not> ToBoolean (getArg args ''returnAll'') \<and>
    ToString (nullish (optMember r (lit ''memory'')) (JStr [])) = Inr m"
  then have "searchMemories cfg client (getArg args ''query'') (getArg args ''userId'') =
          JArr (r # rs)"
    by (simp add: searchMemories_def)
  with a show "callTool cfg client \<lparr>name = lit ''search-memories'', arguments = Some args\<rparr> =
        Inr \<lparr>content = [\<lparr>type = lit ''text'',
                          text = (if normalizeOneLine m = []
                                  then lit ''No relevant memory found''
                                  else normalizeOneLine m)\<rparr>],
             isError = False\<rparr>"
    by (simp add: callTool_search formatSearch_def textResult_def Let_def)
next
  show "singleSpaced (normalizeOneLine m)" using normalizeOneLine_shape [of m] by blast
next
  show "\<forall>c \<in> set (normalizeOneLine m). \<not> isCrLfTab c"
    using normalizeOneLine_shape [of m] by blast
next
  assume "normalizeOneLine m \<noteq> []"
  then show "\<not> isWhiteSpace (hd (normalizeOneLine m))"
    using normalizeOneLine_shape [of m] by blast
next
  assume "normalizeOneLine m \<noteq> []"
  then show "\<not> isWhiteSpace (last (normalizeOneLine m))"
    using normalizeOneLine_shape [of m] by blast
next
  show "filter (\<lambda>c. \<not> isWhiteSpace c) (normalizeOneLine m) =
        filter (\<lambda>c. \<not> isWhiteSpace c) m"
    by (rule normalizeOneLine_keeps)
next
  assume a: "search client (getArg args ''query'')
       (orElse (getArg args ''userId'') (JStr (defaultUserId cfg))) =
       Resolved (JArr (r # rs)) \<and>
    \<not> ToBoolean (getArg args ''returnAll'') \<and>
    ToString (nullish (optMember r (lit ''memory'')) (JStr [])) = Inl ex"
  then have s: "searchMemories cfg client (getArg args ''query'') (getArg args ''userId'') =
          JArr (r # rs)"
    by (simp add: searchMemories_def)
  from a obtain msg where m: "ex = JsError msg"
    using ToString_throws_Error(1) by (cases ex) auto
  with a s have "callTool cfg client \<lparr>name = lit ''search-memories'', arguments = Some args\<rparr> =
      Inr \<lparr>content = [\<lparr>type = lit ''text'', text = lit ''Error: '' @ msg\<rparr>], isError = True\<rparr>"
    by (simp add: callTool_search formatSearch_def textResult_def Let_def)
  with m show "\<exists>msg. ex = JsError msg \<and>
         callTool cfg client \<lparr>name = lit ''search-memories'', arguments = Some args\<rparr> =
           Inr \<lparr>content = [\<lparr>type = lit ''text'', text = lit ''Error: '' @ msg\<rparr>],
                isError = True\<rparr>"
    by blast
qed

text \<open>
  The worked example with \<open>returnAll\<close> omitted; a memory text with white space around it
  and runs of tab, carriage return, line feed and spaces inside; and a memory that cannot
  be converted.
\<close>

theorem search_default_first_memory_witness:
  "\<not> ToBoolean (getArg searchArgs ''returnAll'') \<and>
   callTool exampleConfig exampleClient
       \<lparr>name = lit ''search-memories'', arguments = Some searchArgs\<rparr> =
     Inr \<lparr>content = [\<lparr>type = lit ''text'', text = lit ''Loves hiking''\<rparr>], isError = False\<rparr> \<and>
   normalizeOneLine paddedText = lit ''Loves hiking daily'' \<and>
   callTool exampleConfig paddedClient
       \<lparr>name = lit ''search-memories'', arguments = Some searchArgs\<rparr> =
     Inr \<lparr>content = [\<lparr>type = lit ''text'', text = lit ''Loves hiking daily''\<rparr>],
          isError = False\<rparr> \<and>
   singleSpaced (lit ''Loves hiking daily'') \<and>
   \<not> isWhiteSpace (hd (lit ''Loves hiking daily'')) \<and>
   \<not> isWhiteSpace (last (lit ''Loves hiking daily'')) \<and>
   callTool exampleConfig oddClient
       \<lparr>name = lit ''search-memories'', arguments = Some searchArgs\<rparr> =
     Inr \<lparr>content = [\<lparr>type = lit ''text'',
                       text = lit ''Error: Cannot convert object to primitive value''\<rparr>],
          isError = True\<rparr>"
proof -
  let ?r = "JObj [(lit ''memory'', JStr lovesHiking),
                  (lit ''score'', JNum (StringToNumber (lit ''0.8765'')))]"
  let ?rs = "[JObj [(lit ''memory'', JStr (lit ''Owns a dog'')),
                    (lit ''score'', JNum (StringToNumber (lit ''0.5'')))]]"
  let ?p = "JObj [(lit ''memory'', JStr paddedText)]"
  let ?o = "JObj [(lit ''memory'', JObj [(lit ''toString'', JNull)])]"
  let ?ex = "JsError (lit ''Cannot convert object to primitive value'')"
  have h2: "\<not> ToBoolean (getArg searchArgs ''returnAll'')"
    by (simp add: getArg_searchArgs)
  have e1: "search exampleClient (getArg searchArgs ''query'')
              (orElse (getArg searchArgs ''userId'') (JStr (defaultUserId exampleConfig))) =
            Resolved (JArr (?r # ?rs))"
    by (simp add: exampleClient_def exampleRecords_def)
  have e3: "ToString (nullish (optMember ?r (lit ''memory'')) (JStr [])) = Inr lovesHiking"
    by (simp add: nullish_def)
  have p1: "search paddedClient (getArg searchArgs ''query'')
              (orElse (getArg searchArgs ''userId'') (JStr (defaultUserId exampleConfig))) =
            Resolved (JArr (?p # []))"
    by (simp add: paddedClient_def)
  have p3: "ToString (nullish (optMember ?p (lit ''memory'')) (JStr [])) = Inr paddedText"
    by (simp add: nullish_def)
  have o1: "search oddClient (getArg searchArgs ''query'')
              (orElse (getArg searchArgs ''userId'') (JStr (defaultUserId exampleConfig))) =
            Resolved (JArr (?o # []))"
    by (simp add: oddClient_def)
  have o3: "ToString (nullish (optMember ?o (lit ''memory'')) (JStr [])) = Inl ?ex"
    by (simp add: nullish_def)
  have n1: "lit ''Loves hiking'' \<noteq> []" and n2: "lit ''Loves hiking daily'' \<noteq> []"
    by (simp_all add: lit_def)
  have e: "lit ''Error: '' @ lit ''Cannot convert object to primitive value'' =
           lit ''Error: Cannot convert object to primitive value''"
    by (simp add: lit_def)
  from search_default_first_memory
         [of exampleClient searchArgs exampleConfig ?r ?rs lovesHiking ?ex] e1 h2 e3 n1
  have c1: "callTool exampleConfig exampleClient
       \<lparr>name = lit ''search-memories'', arguments = Some searchArgs\<rparr> =
     Inr \<lparr>content = [\<lparr>type = lit ''text'', text = lit ''Loves hiking''\<rparr>], isError = False\<rparr>"
    by (simp add: normalizeOneLine_example)
  from search_default_first_memory
         [of paddedClient searchArgs exampleConfig ?p "[]" paddedText ?ex] p1 h2 p3 n2
  have c2: "callTool exampleConfig paddedClient
       \<lparr>name = lit ''search-memories'', arguments = Some searchArgs\<rparr> =
     Inr \<lparr>content = [\<lparr>type = lit ''text'', text = lit ''Loves hiking daily''\<rparr>],
          isError = False\<rparr>"
    and c3: "singleSpaced (lit ''Loves hiking daily'')"
    and c4: "\<not> isWhiteSpace (hd (lit ''Loves hiking daily''))"
    and c5: "\<not> isWhiteSpace (last (lit ''Loves hiking daily''))"
    by (simp_all add: normalizeOneLine_padded)
  from search_default_first_memory
         [of oddClient searchArgs exampleConfig ?o "[]" "[]" ?ex] o1 h2 o3 e
  have c6: "callTool exampleConfig oddClient
       \<lparr>name = lit ''search-memories'', arguments = Some searchArgs\<rparr> =
     Inr \<lparr>content = [\<lparr>type = lit ''text'',
                       text = lit ''Error: Cannot convert object to primitive value''\<rparr>],
          isError = True\<rparr>"
    by simp
  from h2 c1 c2 c3 c4 c5 c6 normalizeOneLine_padded show ?thesis by (intro conjI)
qed

section \<open>The claim about the ranked list\<close>

text \<open>
  Claim C3, as the specification words it: for the two example records and
  \<open>returnAll: true\<close> the text is
  \<open>Loves hiking (relevance: 0.877); Owns a dog (relevance: 0.5)\<close>. The score \<open>0.8765\<close>
  is the double \<open>7894810146780479 * 2 ^ - 53\<close>, which lies below \<open>0.8765\<close>; \<open>toFixed(3)\<close>
  rounds that exact value and prints \<open>0.876\<close>.
\<close>

theorem search_returnAll_example_counterexample:
  "callTool exampleConfig exampleClient
       \<lparr>name = lit ''search-memories'', arguments = Some searchAllArgs\<rparr> \<noteq>
     Inr \<lparr>content =
            [\<lparr>type = lit ''text'',
              text = lit ''Loves hiking (relevance: 0.877); Owns a dog (relevance: 0.5)''\<rparr>],
          isError = False\<rparr>"
proof -
  have "lit ''Loves hiking (relevance: 0.876); Owns a dog (relevance: 0.5)'' \<noteq>
        lit ''Loves hiking (relevance: 0.877); Owns a dog (relevance: 0.5)''"
    by (simp add: lit_def)
  then show ?thesis by (simp add: search_returnAll_example)
qed

text \<open>
  Claim C3, amended. When \<open>returnAll\<close> is truthy, the search finds a non-empty list and
  the first five records format without an exception, the text is the formatted records,
  at most five, in their order, joined with \<open>; \<close>. It is never empty, so the fallback
  \<open>No memories found\<close> is not used on this branch. A record with a string for its memory
  and a finite number for its score is formatted as the normalised memory text followed
  by \<open> (relevance: s)\<close>, where \<open>s\<close> prints the number read back from \<open>toFixed(3)\<close>. For the
  example records the text is
  \<open>Loves hiking (relevance: 0.876); Owns a dog (relevance: 0.5)\<close>.
\<close>

theorem search_returnAll_ranked:
  "(search client (getArg args ''query'')
        (orElse (getArg args ''userId'') (JStr (defaultUserId cfg))) = Resolved (JArr rs) \<and>
      rs \<noteq> [] \<and> ToBoolean (getArg args ''returnAll'') \<and>
      mapResult formatRecord (take 5 rs) = Inr fs \<longrightarrow>
    callTool cfg client \<lparr>name = lit ''search-memories'', arguments = Some args\<rparr> =
      Inr \<lparr>content = [\<lparr>type = lit ''text'', text = joinStrings (lit ''; '') fs\<rparr>],
           isError = False\<rparr> \<and>
    joinStrings (lit ''; '') fs \<noteq> [] \<and>
    length fs = min 5 (length rs) \<and>
    (\<forall>i < length fs. formatRecord (rs ! i) = Inr (fs ! i))) \<and>
   (optMember r (lit ''memory'') = JStr m \<and> optMember r (lit ''score'') = JNum x \<and>
      isFinite x \<longrightarrow>
    formatRecord r =
      Inr (normalizeOneLine m @ lit '' (relevance: '' @
           numberToString (StringToNumber (toFixed x 3)) @ lit '')'')) \<and>
   callTool exampleConfig exampleClient
       \<lparr>name = lit ''search-memories'', arguments = Some searchAllArgs\<rparr> =
     Inr \<lparr>content =
            [\<lparr>type = lit ''text'',
              text = lit ''Loves hiking (relevance: 0.876); Owns a dog (relevance: 0.5)''\<rparr>],
          isError = False\<rparr>"
  using search_returnAll_general [of client args cfg rs fs]
    formatRecord_text_number [of r m x] search_returnAll_example
  by blast

text \<open>The example records, and the second of them on its own.\<close>

theorem search_returnAll_ranked_witness:
  "search exampleClient (JStr (lit ''hobbies'')) (JStr (lit ''alice'')) =
     Resolved (JArr exampleRecords) \<and>
   exampleRecords \<noteq> [] \<and>
   ToBoolean (getArg searchAllArgs ''returnAll'') \<and>
   mapResult formatRecord (take 5 exampleRecords) =
     Inr [lit ''Loves hiking (relevance: 0.876)'', lit ''Owns a dog (relevance: 0.5)''] \<and>
   callTool exampleConfig exampleClient
       \<lparr>name = lit ''search-memories'', arguments = Some searchAllArgs\<rparr> =
     Inr \<lparr>content =
            [\<lparr>type = lit ''text'',
              text = joinStrings (lit ''; '')
                [lit ''Loves hiking (relevance: 0.876)'', lit ''Owns a dog (relevance: 0.5)'']\<rparr>],
          isError = False\<rparr> \<and>
   formatRecord (JObj [(lit ''memory'', JStr (lit ''Owns a dog'')),
                       (lit ''score'', JNum (Fin 4503599627370496 (- 53)))]) =
     Inr (lit ''Owns a dog'' @ lit '' (relevance: '' @ lit ''0.5'' @ lit '')'')"
proof -
  let ?fs = "[lit ''Loves hiking (relevance: 0.876)'', lit ''Owns a dog (relevance: 0.5)'']"
  let ?r = "JObj [(lit ''memory'', JStr (lit ''Owns a dog'')),
                  (lit ''score'', JNum (Fin 4503599627370496 (- 53)))]"
  have h1: "search exampleClient (getArg searchAllArgs ''query'')
              (orElse (getArg searchAllArgs ''userId'') (JStr (defaultUserId exampleConfig))) =
            Resolved (JArr exampleRecords)"
    by (simp add: exampleClient_def)
  have h1': "search exampleClient (JStr (lit ''hobbies'')) (JStr (lit ''alice'')) =
     Resolved (JArr exampleRecords)"
    by (simp add: exampleClient_def)
  have h2: "exampleRecords \<noteq> []" by (simp add: exampleRecords_def)
  have h3: "ToBoolean (getArg searchAllArgs ''returnAll'')" by (simp add: getArg_searchAllArgs)
  have k: "lit ''score'' \<noteq> lit ''memory''" by (simp add: lit_def)
  then have h4: "optMember ?r (lit ''memory'') = JStr (lit ''Owns a dog'') \<and>
      optMember ?r (lit ''score'') = JNum (Fin 4503599627370496 (- 53)) \<and>
      isFinite (Fin 4503599627370496 (- 53))"
    by simp
  from search_returnAll_ranked
         [of exampleClient searchAllArgs exampleConfig exampleRecords ?fs ?r
             "lit ''Owns a dog''" "Fin 4503599627370496 (- 53)"]
    h1 h1' h2 h3 h4 mapResult_example
  show ?thesis
    by (simp add: toFixed_5 StringToNumber_500 numberToString_5 normalizeOneLine_example2
        del: numberToString.simps joinStrings.simps)
qed

section \<open>The claim about score coercion\<close>




section \<open>The claim about failure containment\<close>

lemma formatSearch_odd:
  "formatSearch (JArr [JObj [(lit ''memory'', JObj [(lit ''toString'', JNull)])]]) JUndefined =
     Inl (JsError (lit ''Cannot convert object to primitive value''))"
  by (simp add: formatSearch_def nullish_def)

text \<open>
  Claim C1, as the specification words it: every failure path, a failure of the adapter
  among them, ends in a result with \<open>isError: true\<close>. With a client whose \<open>add\<close> rejects,
  \<open>addMemory\<close> returns \<open>false\<close> and the call is answered with \<open>isError: false\<close>.
\<close>

theorem adapter_failure_counterexample:
  "addMemory exampleConfig failingClient (getArg addArgs ''content'') (getArg addArgs ''userId'')
     = False \<and>
   callTool exampleConfig failingClient \<lparr>name = lit ''add-memory'', arguments = Some addArgs\<rparr> =
     Inr \<lparr>content = [\<lparr>type = lit ''text'', text = lit ''Memory added successfully''\<rparr>],
          isError = False\<rparr>"
  by (simp add: addMemory_def failingClient_def callTool_def handlerBody_def textResult_def)

text \<open>
  Claim C1, amended. The handler returns a result with one text block for every request
  and lets no exception escape. Absent arguments, an unknown tool name and an exception
  raised while formatting give \<open>isError: true\<close> with a text that describes the error.
  A failure of the adapter does not: the helpers catch it, \<open>add-memory\<close> still answers
  \<open>Memory added successfully\<close> and \<open>search-memories\<close> answers \<open>No memories found\<close>, both
  with \<open>isError: false\<close>.
\<close>

theorem callTool_contains_failures:
  "(\<exists>r t. callTool cfg client req = Inr r \<and> content r = [\<lparr>type = lit ''text'', text = t\<rparr>]) \<and>
   (arguments req = None \<longrightarrow>
      callTool cfg client req =
        Inr \<lparr>content = [\<lparr>type = lit ''text'', text = lit ''Error: No arguments provided''\<rparr>],
             isError = True\<rparr>) \<and>
   (arguments req = Some args \<and> name req \<noteq> lit ''add-memory'' \<and>
    name req \<noteq> lit ''search-memories'' \<longrightarrow>
      callTool cfg client req =
        Inr \<lparr>content = [\<lparr>type = lit ''text'', text = lit ''Unknown tool: '' @ name req\<rparr>],
             isError = True\<rparr>) \<and>
   (arguments req = Some args \<and> name req = lit ''search-memories'' \<and>
    formatSearch (searchMemories cfg client (getArg args ''query'') (getArg args ''userId''))
      (getArg args ''returnAll'') = Inl ex \<longrightarrow>
      (\<exists>msg. ex = JsError msg \<and>
         callTool cfg client req =
           Inr \<lparr>content = [\<lparr>type = lit ''text'', text = lit ''Error: '' @ msg\<rparr>],
                isError = True\<rparr>)) \<and>
   (arguments req = Some args \<and> name req = lit ''add-memory'' \<and>
    addMemory cfg client (getArg args ''content'') (getArg args ''userId'') = False \<longrightarrow>
      callTool cfg client req =
        Inr \<lparr>content = [\<lparr>type = lit ''text'', text = lit ''Memory added successfully''\<rparr>],
             isError = False\<rparr>) \<and>
   (arguments req = Some args \<and> name req = lit ''search-memories'' \<and>
    search client (getArg args ''query'')
      (orElse (getArg args ''userId'') (JStr (defaultUserId cfg))) = Rejected ex \<longrightarrow>
      callTool cfg client req =
        Inr \<lparr>content = [\<lparr>type = lit ''text'', text = lit ''No memories found''\<rparr>],
             isError = False\<rparr>)"
proof (intro conjI impI)
  show "\<exists>r t. callTool cfg client req = Inr r \<and> content r = [\<lparr>type = lit ''text'', text = t\<rparr>]"
    using callTool_textResult [of cfg client req] by (auto simp: textResult_def)
next
  assume "arguments req = None"
  then show "callTool cfg client req =
        Inr \<lparr>content = [\<lparr>type = lit ''text'', text = lit ''Error: No arguments provided''\<rparr>],
             isError = True\<rparr>"
    by (simp add: callTool_def handlerBody_def textResult_def lit_def)
next
  assume "arguments req = Some args \<and> name req \<noteq> lit ''add-memory'' \<and>
    name req \<noteq> lit ''search-memories''"
  then show "callTool cfg client req =
        Inr \<lparr>content = [\<lparr>type = lit ''text'', text = lit ''Unknown tool: '' @ name req\<rparr>],
             isError = True\<rparr>"
    by (simp add: callTool_def handlerBody_def textResult_def)
next
  assume a: "arguments req = Some args \<and> name req = lit ''search-memories'' \<and>
    formatSearch (searchMemories cfg client (getArg args ''query'') (getArg args ''userId''))
      (getArg args ''returnAll'') = Inl ex"
  then have r: "req = \<lparr>name = lit ''search-memories'', arguments = Some args\<rparr>" by (cases req) simp
  from a obtain msg where m: "ex = JsError msg"
    using formatSearch_throws_Error by (cases ex) auto
  with a have "callTool cfg client req =
      Inr \<lparr>content = [\<lparr>type = lit ''text'', text = lit ''Error: '' @ msg\<rparr>], isError = True\<rparr>"
    by (simp add: r callTool_search textResult_def)
  with m show "\<exists>msg. ex = JsError msg \<and>
         callTool cfg client req =
           Inr \<lparr>content = [\<lparr>type = lit ''text'', text = lit ''Error: '' @ msg\<rparr>],
                isError = True\<rparr>"
    by blast
next
  assume "arguments req = Some args \<and> name req = lit ''add-memory'' \<and>
    addMemory cfg client (getArg args ''content'') (getArg args ''userId'') = False"
  then show "callTool cfg client req =
        Inr \<lparr>content = [\<lparr>type = lit ''text'', text = lit ''Memory added successfully''\<rparr>],
             isError = False\<rparr>"
    by (simp add: callTool_def handlerBody_def textResult_def)
next
  assume a: "arguments req = Some args \<and> name req = lit ''search-memories'' \<and>
    search client (getArg args ''query'')
      (orElse (getArg args ''userId'') (JStr (defaultUserId cfg))) = Rejected ex"
  then have r: "req = \<lparr>name = lit ''search-memories'', arguments = Some args\<rparr>" by (cases req) simp
  from a have "searchMemories cfg client (getArg args ''query'') (getArg args ''userId'') = JArr []"
    by (simp add: searchMemories_def)
  then show "callTool cfg client req =
        Inr \<lparr>content = [\<lparr>type = lit ''text'', text = lit ''No memories found''\<rparr>],
             isError = False\<rparr>"
    by (simp add: r callTool_search formatSearch_def textResult_def)
qed

text \<open>
  One request for each path: no arguments, an unknown tool, a record whose memory cannot
  be converted to a string, a failing add and a failing search.
\<close>

theorem callTool_contains_failures_witness:
  "callTool exampleConfig exampleClient \<lparr>name = lit ''add-memory'', arguments = None\<rparr> =
     Inr \<lparr>content = [\<lparr>type = lit ''text'', text = lit ''Error: No arguments provided''\<rparr>],
          isError = True\<rparr> \<and>
   callTool exampleConfig exampleClient \<lparr>name = lit ''delete-memory'', arguments = Some []\<rparr> =
     Inr \<lparr>content = [\<lparr>type = lit ''text'', text = lit ''Unknown tool: delete-memory''\<rparr>],
          isError = True\<rparr> \<and>
   callTool exampleConfig oddClient
       \<lparr>name = lit ''search-memories'', arguments = Some searchArgs\<rparr> =
     Inr \<lparr>content = [\<lparr>type = lit ''text'',
                       text = lit ''Error: Cannot convert object to primitive value''\<rparr>],
          isError = True\<rparr> \<and>
   callTool exampleConfig failingClient \<lparr>name = lit ''add-memory'', arguments = Some addArgs\<rparr> =
     Inr \<lparr>content = [\<lparr>type = lit ''text'', text = lit ''Memory added successfully''\<rparr>],
          isError = False\<rparr> \<and>
   callTool exampleConfig failingClient
       \<lparr>name = lit ''search-memories'', arguments = Some searchArgs\<rparr> =
     Inr \<lparr>content = [\<lparr>type = lit ''text'', text = lit ''No memories found''\<rparr>],
          isError = False\<rparr>"
proof -
  let ?none = "\<lparr>name = lit ''add-memory'', arguments = None\<rparr>"
  let ?unknown = "\<lparr>name = lit ''delete-memory'', arguments = Some []\<rparr>"
  let ?search = "\<lparr>name = lit ''search-memories'', arguments = Some searchArgs\<rparr>"
  let ?add = "\<lparr>name = lit ''add-memory'', arguments = Some addArgs\<rparr>"
  let ?ex = "JsError (lit ''Cannot convert object to primitive value'')"
  have n: "lit ''delete-memory'' \<noteq> lit ''add-memory''"
    "lit ''delete-memory'' \<noteq> lit ''search-memories''"
    by (simp_all add: lit_def)
  have u: "lit ''Unknown tool: '' @ lit ''delete-memory'' = lit ''Unknown tool: delete-memory''"
    by (simp add: lit_def)
  have e: "lit ''Error: '' @ lit ''Cannot convert object to primitive value'' =
           lit ''Error: Cannot convert object to primitive value''"
    by (simp add: lit_def)
  have odd: "formatSearch
      (searchMemories exampleConfig oddClient (getArg searchArgs ''query'')
         (getArg searchArgs ''userId''))
      (getArg searchArgs ''returnAll'') = Inl ?ex"
    by (simp add: searchMemories_def oddClient_def getArg_searchArgs formatSearch_odd)
  have addf: "addMemory exampleConfig failingClient (getArg addArgs ''content'')
      (getArg addArgs ''userId'') = False"
    by (simp add: addMemory_def failingClient_def)
  have sf: "search failingClient (getArg searchArgs ''query'')
      (orElse (getArg searchArgs ''userId'') (JStr (defaultUserId exampleConfig))) =
      Rejected (JsError (lit ''fetch failed''))"
    by (simp add: failingClient_def)
  from callTool_contains_failures [of exampleConfig exampleClient ?none "[]" ?ex]
  have c1: "callTool exampleConfig exampleClient ?none =
     Inr \<lparr>content = [\<lparr>type = lit ''text'', text = lit ''Error: No arguments provided''\<rparr>],
          isError = True\<rparr>"
    by simp
  from callTool_contains_failures [of exampleConfig exampleClient ?unknown "[]" ?ex] n u
  have c2: "callTool exampleConfig exampleClient ?unknown =
     Inr \<lparr>content = [\<lparr>type = lit ''text'', text = lit ''Unknown tool: delete-memory''\<rparr>],
          isError = True\<rparr>"
    by simp
  from callTool_contains_failures [of exampleConfig oddClient ?search searchArgs ?ex] odd e
  have c3: "callTool exampleConfig oddClient ?search =
     Inr \<lparr>content = [\<lparr>type = lit ''text'',
                       text = lit ''Error: Cannot convert object to primitive value''\<rparr>],
          isError = True\<rparr>"
    by simp
  from callTool_contains_failures [of exampleConfig failingClient ?add addArgs ?ex] addf
  have c4: "callTool exampleConfig failingClient ?add =
     Inr \<lparr>content = [\<lparr>type = lit ''text'', text = lit ''Memory added successfully''\<rparr>],
          isError = False\<rparr>"
    by simp
  from callTool_contains_failures
         [of exampleConfig failingClient ?search searchArgs "JsError (lit ''fetch failed'')"] sf
  have c5: "callTool exampleConfig failingClient ?search =
     Inr \<lparr>content = [\<lparr>type = lit ''text'', text = lit ''No memories found''\<rparr>],
          isError = False\<rparr>"
    by simp
  from c1 c2 c3 c4 c5 show ?thesis by (intro conjI)
qed

end
